theory Spec2Isabelle
  imports Main "HOL-Library.AList" "HOL-Library.Sublist"
begin

section \<open>Python values used by \<open>app.py\<close>\<close>

text \<open>
  JSON values as Python sees them after parsing: \<open>None\<close>, booleans, numbers, strings,
  lists and dicts. A dict is an association list in insertion order; \<open>map_of\<close> reads it
  and \<open>AList.update\<close> is item assignment (an existing key keeps its place, a new key is
  appended). The program never computes with a JSON number, so a number is kept as the
  numeral text it was written with.
\<close>

datatype json =
    JNull
  | JBool bool
  | JNum string
  | JStr string
  | JList "json list"
  | JObj "(string \<times> json) list"

text \<open>
  An exception is its class name and the text \<open>str(e)\<close> gives; the handlers only ever
  use \<open>str(e)\<close>.
\<close>

datatype exn = PyErr string string

fun str_exn :: "exn \<Rightarrow> string" where
  "str_exn (PyErr cls msg) = msg"

definition quote :: "string \<Rightarrow> string" where
  "quote s = [CHR 0x27] @ s @ [CHR 0x27]"

definition KeyError :: "string \<Rightarrow> exn" where
  "KeyError k = PyErr ''KeyError'' (quote k)"

definition TypeError :: "string \<Rightarrow> exn" where
  "TypeError msg = PyErr ''TypeError'' msg"

definition AttributeError :: "string \<Rightarrow> exn" where
  "AttributeError msg = PyErr ''AttributeError'' msg"

definition ValueError :: "string \<Rightarrow> exn" where
  "ValueError msg = PyErr ''ValueError'' msg"

definition OverflowError :: "string \<Rightarrow> exn" where
  "OverflowError msg = PyErr ''OverflowError'' msg"

definition Exception :: "string \<Rightarrow> exn" where
  "Exception msg = PyErr ''Exception'' msg"

text \<open>\<open>k in data\<close> for a string literal \<open>k\<close>: key membership on a dict, substring on a
  string, element membership on a list, \<open>TypeError\<close> on anything else.\<close>

fun py_in :: "string \<Rightarrow> json \<Rightarrow> exn + bool" where
  "py_in k (JObj al) = Inr (map_of al k \<noteq> None)"
| "py_in k (JStr s) = Inr (sublist k s)"
| "py_in k (JList xs) = Inr (JStr k \<in> set xs)"
| "py_in k v = Inl (TypeError ''argument is not iterable'')"

text \<open>\<open>data[k]\<close> for a string literal \<open>k\<close>.\<close>

fun py_getitem :: "json \<Rightarrow> string \<Rightarrow> exn + json" where
  "py_getitem (JObj al) k = (case map_of al k of Some v \<Rightarrow> Inr v | None \<Rightarrow> Inl (KeyError k))"
| "py_getitem (JStr s) k = Inl (TypeError ''string indices must be integers'')"
| "py_getitem (JList xs) k = Inl (TypeError ''list indices must be integers or slices'')"
| "py_getitem v k = Inl (TypeError ''object is not subscriptable'')"

text \<open>\<open>data.get(k, d)\<close>: only a dict has the method.\<close>

fun py_get :: "json \<Rightarrow> string \<Rightarrow> json \<Rightarrow> exn + json" where
  "py_get (JObj al) k d = Inr (case map_of al k of Some v \<Rightarrow> v | None \<Rightarrow> d)"
| "py_get v k d = Inl (AttributeError ''object has no attribute get'')"

text \<open>\<open>event[k] = v\<close> for a string literal \<open>k\<close>.\<close>

fun py_setitem :: "json \<Rightarrow> string \<Rightarrow> json \<Rightarrow> exn + json" where
  "py_setitem (JObj al) k v = Inr (JObj (AList.update k v al))"
| "py_setitem (JList xs) k v = Inl (TypeError ''list indices must be integers or slices'')"
| "py_setitem e k v = Inl (TypeError ''object does not support item assignment'')"

text \<open>
  \<open>str(v)\<close> as an f-string applies it. A string formats as itself, \<open>None\<close> and the
  booleans by name; the text of a number, list or dict is left to the parameter \<open>R\<close>
  (Python's \<open>repr\<close>), which no property below depends on.
\<close>

fun py_str :: "(json \<Rightarrow> string) \<Rightarrow> json \<Rightarrow> string" where
  "py_str R (JStr s) = s"
| "py_str R JNull = ''None''"
| "py_str R (JBool b) = (if b then ''True'' else ''False'')"
| "py_str R v = R v"

section \<open>\<open>datetime\<close>: the proleptic Gregorian calendar\<close>

text \<open>
  The part of Python's \<open>datetime\<close> that \<open>get_events\<close> uses: \<open>strptime\<close> and
  \<open>strftime\<close> with \<open>%Y-%m-%d\<close>, adding \<open>timedelta(days=n)\<close>, and \<open>isoformat\<close>.
  Dates are converted to and from day ordinals (1 is 0001-01-01) the way the standard
  library does it.
\<close>

record datetime =
  year :: int
  month :: int
  day :: int
  hour :: int
  minute :: int
  second :: int

definition is_leap :: "int \<Rightarrow> bool" where
  "is_leap y = (y mod 4 = 0 \<and> (y mod 100 \<noteq> 0 \<or> y mod 400 = 0))"

definition DAYS_IN_MONTH :: "int list" where
  "DAYS_IN_MONTH = [-1, 31, 28, 31, 30, 31, 30, 31, 31, 30, 31, 30, 31]"

definition DAYS_BEFORE_MONTH :: "int list" where
  "DAYS_BEFORE_MONTH = [-1, 0, 31, 59, 90, 120, 151, 181, 212, 243, 273, 304, 334]"

definition days_before_year :: "int \<Rightarrow> int" where
  "days_before_year y = (y - 1) * 365 + (y - 1) div 4 - (y - 1) div 100 + (y - 1) div 400"

definition days_in_month :: "int \<Rightarrow> int \<Rightarrow> int" where
  "days_in_month y m = (if m = 2 \<and> is_leap y then 29 else DAYS_IN_MONTH ! nat m)"

definition days_before_month :: "int \<Rightarrow> int \<Rightarrow> int" where
  "days_before_month y m = DAYS_BEFORE_MONTH ! nat m + (if m > 2 \<and> is_leap y then 1 else 0)"

definition ymd2ord :: "int \<Rightarrow> int \<Rightarrow> int \<Rightarrow> int" where
  "ymd2ord y m d = days_before_year y + days_before_month y m + d"

definition ord2ymd :: "int \<Rightarrow> int \<times> int \<times> int" where
  "ord2ymd n0 =
     (let n = n0 - 1;
          n400 = n div 146097; n = n mod 146097;
          n100 = n div 36524; n = n mod 36524;
          n4 = n div 1461; n = n mod 1461;
          n1 = n div 365; n = n mod 365;
          y = n400 * 400 + 1 + n100 * 100 + n4 * 4 + n1
      in if n1 = 4 \<or> n100 = 4 then (y - 1, 12, 31)
         else
           let leapyear = (n1 = 3 \<and> (n4 \<noteq> 24 \<or> n100 = 3));
               m = (n + 50) div 32;
               preceding = DAYS_BEFORE_MONTH ! nat m + (if m > 2 \<and> leapyear then 1 else 0)
           in if preceding > n
              then (y, m - 1,
                    n - (preceding - (DAYS_IN_MONTH ! nat (m - 1)
                                      + (if m - 1 = 2 \<and> leapyear then 1 else 0))) + 1)
              else (y, m, n - preceding + 1))"

definition toordinal :: "datetime \<Rightarrow> int" where
  "toordinal dt = ymd2ord (year dt) (month dt) (day dt)"

text \<open>\<open>dt + timedelta(days=n)\<close>: the time of day is kept; a result outside the years
  1 to 9999 raises \<open>OverflowError\<close> (so does a \<open>timedelta\<close> beyond 999999999 days).\<close>

definition MAXORDINAL :: int where
  "MAXORDINAL = 3652059"

definition add_days :: "datetime \<Rightarrow> int \<Rightarrow> exn + datetime" where
  "add_days dt n =
     (if \<bar>n\<bar> > 999999999 then Inl (OverflowError ''days out of range'')
      else let o' = toordinal dt + n
           in if 0 < o' \<and> o' \<le> MAXORDINAL
              then (case ord2ymd o' of (y, m, d) \<Rightarrow> Inr (dt\<lparr>year := y, month := m, day := d\<rparr>))
              else Inl (OverflowError ''date value out of range''))"

text \<open>The values a \<open>datetime\<close> object can hold, as far as the date goes.\<close>

definition valid_date :: "datetime \<Rightarrow> bool" where
  "valid_date dt = (1 \<le> year dt \<and> year dt \<le> 9999 \<and> 1 \<le> month dt \<and> month dt \<le> 12
                    \<and> 1 \<le> day dt \<and> day dt \<le> days_in_month (year dt) (month dt))"

subsection \<open>Formatting\<close>

definition digit_char :: "nat \<Rightarrow> char" where
  "digit_char k = ''0123456789'' ! k"

fun dec :: "nat \<Rightarrow> string" where
  "dec n = (if n < 10 then [digit_char n] else dec (n div 10) @ [digit_char (n mod 10)])"

declare dec.simps [simp del]

definition zpad :: "nat \<Rightarrow> int \<Rightarrow> string" where
  "zpad w i = (let s = dec (nat i) in replicate (w - length s) CHR ''0'' @ s)"

text \<open>\<open>dt.strftime('%Y-%m-%d')\<close>.\<close>

definition strftime_Ymd :: "datetime \<Rightarrow> string" where
  "strftime_Ymd dt = zpad 4 (year dt) @ ''-'' @ zpad 2 (month dt) @ ''-'' @ zpad 2 (day dt)"

text \<open>\<open>dt.isoformat()\<close> for a value with no microseconds.\<close>

definition isoformat :: "datetime \<Rightarrow> string" where
  "isoformat dt = strftime_Ymd dt @ ''T'' @ zpad 2 (hour dt) @ '':'' @ zpad 2 (minute dt)
                    @ '':'' @ zpad 2 (second dt)"

subsection \<open>Parsing\<close>

definition is_digit :: "char \<Rightarrow> bool" where
  "is_digit c = (c \<in> set ''0123456789'')"

definition digit_val :: "char \<Rightarrow> int" where
  "digit_val c = int (of_char c) - 48"

text \<open>The directive \<open>%Y\<close> is the pattern \<open>\d\d\d\d\<close>.\<close>

fun parse_Y :: "string \<Rightarrow> (int \<times> string) option" where
  "parse_Y (a # b # c # d # r) =
     (if is_digit a \<and> is_digit b \<and> is_digit c \<and> is_digit d
      then Some (1000 * digit_val a + 100 * digit_val b + 10 * digit_val c + digit_val d, r)
      else None)"
| "parse_Y s = None"

text \<open>The directive \<open>%m\<close> is the pattern \<open>1[0-2]|0[1-9]|[1-9]\<close>, alternatives tried in
  this order.\<close>

fun parse_m :: "string \<Rightarrow> (int \<times> string) option" where
  "parse_m [] = None"
| "parse_m [a] = (if is_digit a \<and> a \<noteq> CHR ''0'' then Some (digit_val a, []) else None)"
| "parse_m (a # b # r) =
     (if a = CHR ''1'' \<and> b \<in> set ''012'' then Some (10 + digit_val b, r)
      else if a = CHR ''0'' \<and> is_digit b \<and> b \<noteq> CHR ''0'' then Some (digit_val b, r)
      else if is_digit a \<and> a \<noteq> CHR ''0'' then Some (digit_val a, b # r)
      else None)"

text \<open>The directive \<open>%d\<close> is the pattern \<open>3[0-1]|[1-2]\d|0[1-9]|[1-9]| [1-9]\<close>.\<close>

fun parse_d :: "string \<Rightarrow> (int \<times> string) option" where
  "parse_d [] = None"
| "parse_d [a] = (if is_digit a \<and> a \<noteq> CHR ''0'' then Some (digit_val a, []) else None)"
| "parse_d (a # b # r) =
     (if a = CHR ''3'' \<and> b \<in> set ''01'' then Some (30 + digit_val b, r)
      else if a \<in> set ''12'' \<and> is_digit b then Some (10 * digit_val a + digit_val b, r)
      else if a = CHR ''0'' \<and> is_digit b \<and> b \<noteq> CHR ''0'' then Some (digit_val b, r)
      else if is_digit a \<and> a \<noteq> CHR ''0'' then Some (digit_val a, b # r)
      else if a = CHR '' '' \<and> is_digit b \<and> b \<noteq> CHR ''0'' then Some (digit_val b, r)
      else None)"

text \<open>
  \<open>datetime.strptime(s, '%Y-%m-%d')\<close>: the pattern must match a prefix and nothing may
  remain; then year 0 and a day the month does not have are refused. Every failure is a
  \<open>ValueError\<close>. Digits are the ASCII digits.
\<close>

definition strptime_Ymd :: "string \<Rightarrow> exn + datetime" where
  "strptime_Ymd s =
     (case parse_Y s of
        None \<Rightarrow> Inl (ValueError ''time data does not match format'')
      | Some (y, r1) \<Rightarrow>
     (case r1 of
        [] \<Rightarrow> Inl (ValueError ''time data does not match format'')
      | c1 # r1' \<Rightarrow>
        if c1 \<noteq> CHR ''-'' then Inl (ValueError ''time data does not match format'')
        else
     (case parse_m r1' of
        None \<Rightarrow> Inl (ValueError ''time data does not match format'')
      | Some (m, r2) \<Rightarrow>
     (case r2 of
        [] \<Rightarrow> Inl (ValueError ''time data does not match format'')
      | c2 # r2' \<Rightarrow>
        if c2 \<noteq> CHR ''-'' then Inl (ValueError ''time data does not match format'')
        else
     (case parse_d r2' of
        None \<Rightarrow> Inl (ValueError ''time data does not match format'')
      | Some (d, r3) \<Rightarrow>
        if r3 \<noteq> [] then Inl (ValueError ''unconverted data remains'')
        else if y < 1 then Inl (ValueError ''year is out of range'')
        else if d > days_in_month y m then Inl (ValueError ''day is out of range for month'')
        else Inr \<lparr>year = y, month = m, day = d, hour = 0, minute = 0, second = 0\<rparr>)))))"

text \<open>
  \<open>int(s)\<close> on a string: surrounding whitespace is dropped, one sign is allowed, and
  the digits may be separated by single underscores. Anything else is a \<open>ValueError\<close>.
\<close>

definition is_space :: "char \<Rightarrow> bool" where
  "is_space c = (c \<in> set [CHR '' '', CHR 0x09, CHR 0x0A, CHR 0x0B, CHR 0x0C, CHR 0x0D])"

definition strip :: "string \<Rightarrow> string" where
  "strip s = rev (dropWhile is_space (rev (dropWhile is_space s)))"

fun digits_val :: "int \<Rightarrow> string \<Rightarrow> int option" where
  "digits_val acc [] = Some acc"
| "digits_val acc [c] = (if is_digit c then Some (10 * acc + digit_val c) else None)"
| "digits_val acc (c # c' # r) =
     (if is_digit c then
        (if c' = CHR ''_'' then (if r = [] then None else digits_val (10 * acc + digit_val c) r)
         else digits_val (10 * acc + digit_val c) (c' # r))
      else None)"

definition py_int :: "string \<Rightarrow> exn + int" where
  "py_int s =
     (let t = strip s;
          (sgn, ds) = (case t of
                         c # r \<Rightarrow> if c = CHR ''-'' then (-1, r)
                                  else if c = CHR ''+'' then (1, r) else (1, t)
                       | [] \<Rightarrow> (1, t))
      in if ds = [] then Inl (ValueError ''invalid literal for int() with base 10'')
         else (case digits_val 0 ds of
                 Some n \<Rightarrow> Inr (sgn * n)
               | None \<Rightarrow> Inl (ValueError ''invalid literal for int() with base 10'')))"

section \<open>The world of a request\<close>

text \<open>Sequencing of steps that may raise: the first exception ends the sequence.\<close>

fun bindE :: "exn + 'a \<Rightarrow> ('a \<Rightarrow> exn + 'b) \<Rightarrow> exn + 'b" where
  "bindE (Inl e) f = Inl e"
| "bindE (Inr v) f = f v"

text \<open>Truthiness of an optional string (\<open>if GOOGLE_TOKEN:\<close>): \<open>None\<close> and the empty
  string are false.\<close>

fun truthy :: "string option \<Rightarrow> bool" where
  "truthy None = False"
| "truthy (Some s) = (s \<noteq> [])"

text \<open>What the program reads of a \<open>Credentials\<close> object: \<open>valid\<close>, \<open>expired\<close> and
  \<open>refresh_token\<close>; \<open>token\<close> stands for the rest of it.\<close>

record creds =
  token :: string
  valid :: bool
  expired :: bool
  refresh_token :: "string option"

datatype flow = InstalledAppFlow json

text \<open>The content of \<open>token.pickle\<close>: a pickled credential, or bytes on which
  \<open>pickle.load\<close> raises.\<close>

datatype pickled = Pickle creds | Corrupt exn

text \<open>The keyword arguments of \<open>service.events().list\<close>; an argument that is not passed,
  or is passed as \<open>None\<close>, is \<open>None\<close> here and is left out of the request.\<close>

record list_req =
  calendarId :: string
  timeMin :: "string option"
  timeMax :: "string option"
  maxResults :: int
  singleEvents :: bool
  orderBy :: string
  q :: "string option"

text \<open>
  The service object \<open>build('calendar', 'v3', credentials=creds)\<close> returns, as the
  outcome of \<open>.execute()\<close> on each of its five requests against the remote store \<open>'s\<close>.
  \<open>list\<close> and \<open>get\<close> read the store; \<open>insert\<close>, \<open>update\<close> and \<open>delete\<close> return the
  store they leave behind. The arguments are \<open>calendarId\<close>, \<open>eventId\<close>, \<open>body\<close> in the
  order the program names them.
\<close>

record 's service =
  events_list :: "list_req \<Rightarrow> 's \<Rightarrow> exn + json"
  events_get :: "string \<Rightarrow> string \<Rightarrow> 's \<Rightarrow> exn + json"
  events_insert :: "string \<Rightarrow> json \<Rightarrow> 's \<Rightarrow> (exn + json) \<times> 's"
  events_update :: "string \<Rightarrow> string \<Rightarrow> json \<Rightarrow> 's \<Rightarrow> (exn + json) \<times> 's"
  events_delete :: "string \<Rightarrow> string \<Rightarrow> 's \<Rightarrow> (exn + unit) \<times> 's"

text \<open>
  The libraries the program calls, as parameters: each function gives the outcome of the
  call in this run. \<open>repr\<close> is the text Python prints for a number, list or dict.
\<close>

record 's lib =
  json_loads :: "string \<Rightarrow> exn + json"
  from_authorized_user_info :: "json \<Rightarrow> exn + creds"
  refresh :: "creds \<Rightarrow> exn + creds"
  from_client_config :: "json \<Rightarrow> exn + flow"
  from_client_secrets_file :: "string \<Rightarrow> exn + flow"
  run_local_server :: "flow \<Rightarrow> exn + creds"
  build :: "creds \<Rightarrow> exn + 's service"
  repr :: "json \<Rightarrow> string"

text \<open>Every call that leaves the process is recorded, in order.\<close>

datatype call =
    Refresh creds
  | RunLocalServer flow
  | Build creds
  | EventsList list_req
  | EventsGet string string
  | EventsInsert string json
  | EventsUpdate string string json
  | EventsDelete string string

text \<open>
  The state a request runs in: the three module globals read from the environment, the
  two local files (\<open>None\<close> when the file does not exist), the clock, what was printed,
  the calls made, and the remote event store.
\<close>

record 's world =
  API_KEY :: string
  GOOGLE_CREDENTIALS :: "string option"
  GOOGLE_TOKEN :: "string option"
  token_pickle :: "pickled option"
  credentials_json :: "string option"
  now :: datetime
  stdout :: "string list"
  calls :: "call list"
  store :: 's

definition log_call :: "call \<Rightarrow> 's world \<Rightarrow> 's world" where
  "log_call c w = w\<lparr>calls := calls w @ [c]\<rparr>"

definition print :: "string \<Rightarrow> 's world \<Rightarrow> 's world" where
  "print s w = w\<lparr>stdout := stdout w @ [s]\<rparr>"

datatype route =
    GET_events
  | POST_events
  | PUT_event string
  | DELETE_event string
  | GET_events_search
  | GET_health

text \<open>\<open>req_json\<close> is what evaluating \<open>request.json\<close> gives: the parsed body, or the
  exception Flask raises for a body that is not JSON.\<close>

record request =
  route :: route
  headers :: "string \<rightharpoonup> string"
  args :: "string \<rightharpoonup> string"
  req_json :: "exn + json"

record response =
  status :: int
  body :: json

definition jsonify :: "json \<Rightarrow> response" where
  "jsonify b = \<lparr>status = 200, body = b\<rparr>"

definition with_status :: "response \<Rightarrow> int \<Rightarrow> response" where
  "with_status r c = r\<lparr>status := c\<rparr>"

text \<open>The handlers' \<open>except Exception as e\<close> clause.\<close>

definition error500 :: "exn \<Rightarrow> response" where
  "error500 e =
     with_status (jsonify (JObj [(''success'', JBool False), (''error'', JStr (str_exn e))])) 500"

section \<open>\<open>require_api_key\<close>\<close>

definition require_api_key ::
  "(request \<Rightarrow> 's world \<Rightarrow> response \<times> 's world) \<Rightarrow> request \<Rightarrow> 's world \<Rightarrow> response \<times> 's world"
where
  "require_api_key f req w =
     (let api_key = headers req ''X-API-Key''
      in if api_key \<noteq> Some (API_KEY w)
         then (with_status (jsonify (JObj [(''success'', JBool False),
                                            (''error'', JStr ''Invalid or missing API key'')])) 401, w)
         else f req w)"

section \<open>\<open>get_calendar_service\<close>\<close>

text \<open>Lines 35 to 48: the credential from the environment, else from \<open>token.pickle\<close>.
  The \<open>try\<close> covers only the environment branch.\<close>

definition load_creds :: "'s lib \<Rightarrow> 's world \<Rightarrow> (exn + creds option) \<times> 's world" where
  "load_creds L w =
     (if truthy (GOOGLE_TOKEN w) then
        (case bindE (json_loads L (case GOOGLE_TOKEN w of Some t \<Rightarrow> t | None \<Rightarrow> []))
                    (from_authorized_user_info L) of
           Inr c \<Rightarrow> (Inr (Some c), w)
         | Inl e \<Rightarrow> (Inr None, print (''Error loading token from environment: '' @ str_exn e) w))
      else
        (case token_pickle w of
           Some (Pickle c) \<Rightarrow> (Inr (Some c), w)
         | Some (Corrupt e) \<Rightarrow> (Inl e, w)
         | None \<Rightarrow> (Inr None, w)))"

text \<open>Lines 61 to 79: the interactive flow, which writes \<open>token.pickle\<close>.\<close>

definition run_flow :: "'s lib \<Rightarrow> 's world \<Rightarrow> (exn + creds) \<times> 's world" where
  "run_flow L w =
     (case (if truthy (GOOGLE_CREDENTIALS w)
            then bindE (json_loads L (case GOOGLE_CREDENTIALS w of Some t \<Rightarrow> t | None \<Rightarrow> []))
                       (from_client_config L)
            else (case credentials_json w of
                    Some content \<Rightarrow> from_client_secrets_file L content
                  | None \<Rightarrow> Inl (Exception
                      ''No credentials found. Set GOOGLE_CREDENTIALS environment variable or provide credentials.json''))) of
        Inl e \<Rightarrow> (Inl e, w)
      | Inr fl \<Rightarrow>
          (case credentials_json w of
             Some content \<Rightarrow>
               (case run_local_server L fl of
                  Inl e \<Rightarrow> (Inl e, log_call (RunLocalServer fl) w)
                | Inr c \<Rightarrow> (Inr c, (log_call (RunLocalServer fl) w)\<lparr>token_pickle := Some (Pickle c)\<rparr>))
           | None \<Rightarrow>
               (Inl (Exception ''Cannot run OAuth flow in production without local credentials.json''), w)))"

text \<open>Lines 51 to 79: a missing or invalid credential is refreshed when it is expired and
  has a refresh token, and is otherwise replaced by the flow's.\<close>

definition authorize :: "'s lib \<Rightarrow> creds option \<Rightarrow> 's world \<Rightarrow> (exn + creds) \<times> 's world" where
  "authorize L cr w =
     (case cr of
        None \<Rightarrow> run_flow L w
      | Some c \<Rightarrow>
          if valid c then (Inr c, w)
          else if expired c \<and> truthy (refresh_token c)
          then (refresh L c, log_call (Refresh c) w)
          else run_flow L w)"

definition get_calendar_service :: "'s lib \<Rightarrow> 's world \<Rightarrow> (exn + 's service) \<times> 's world" where
  "get_calendar_service L w =
     (case load_creds L w of
        (Inl e, w1) \<Rightarrow> (Inl e, w1)
      | (Inr cr, w1) \<Rightarrow>
          (case authorize L cr w1 of
             (Inl e, w2) \<Rightarrow> (Inl e, w2)
           | (Inr c, w2) \<Rightarrow> (build L c, log_call (Build c) w2)))"

section \<open>The handlers\<close>

text \<open>\<open>for event in events\<close>: a list gives its elements, a dict its keys, a string its
  characters; nothing else can be iterated.\<close>

fun py_iter :: "json \<Rightarrow> exn + json list" where
  "py_iter (JList xs) = Inr xs"
| "py_iter (JObj al) = Inr (map (\<lambda>kv. JStr (fst kv)) al)"
| "py_iter (JStr s) = Inr (map (\<lambda>c. JStr [c]) s)"
| "py_iter v = Inl (TypeError ''object is not iterable'')"

text \<open>Lines 119 to 126 of \<open>get_events\<close>, and the same lines 266 to 273 of
  \<open>search_events\<close>: the dict built for one event.\<close>

definition format_event :: "json \<Rightarrow> exn + json" where
  "format_event event =
     bindE (py_getitem event ''id'') (\<lambda>ev_id.
     bindE (py_get event ''summary'' (JStr ''No title'')) (\<lambda>title.
     bindE (py_getitem event ''start'') (\<lambda>st.
     bindE (py_get st ''date'' JNull) (\<lambda>st_date.
     bindE (py_get st ''dateTime'' st_date) (\<lambda>start.
     bindE (py_getitem event ''end'') (\<lambda>en.
     bindE (py_get en ''date'' JNull) (\<lambda>en_date.
     bindE (py_get en ''dateTime'' en_date) (\<lambda>end.
     bindE (py_get event ''description'' (JStr [])) (\<lambda>description.
     bindE (py_get event ''location'' (JStr [])) (\<lambda>location.
       Inr (JObj [(''id'', ev_id), (''title'', title), (''start'', start), (''end'', end),
                  (''description'', description), (''location'', location)])))))))))))"

text \<open>Lines 117 to 126 and 264 to 273: the loop; the first event that raises ends it.\<close>

fun format_events :: "json list \<Rightarrow> exn + json list" where
  "format_events [] = Inr []"
| "format_events (event # events) =
     bindE (format_event event) (\<lambda>f. bindE (format_events events) (\<lambda>fs. Inr (f # fs)))"

text \<open>\<open>request.args.get(k, d)\<close>.\<close>

definition args_get :: "request \<Rightarrow> string \<Rightarrow> string \<Rightarrow> string" where
  "args_get req k d = (case args req k of Some v \<Rightarrow> v | None \<Rightarrow> d)"

text \<open>Lines 104 to 126 and 253 to 273: the list request is sent and its items are
  formatted.\<close>

definition list_and_format :: "'s service \<Rightarrow> list_req \<Rightarrow> 's \<Rightarrow> exn + json list" where
  "list_and_format service r s =
     bindE (events_list service r s) (\<lambda>events_result.
     bindE (py_get events_result ''items'' (JList [])) (\<lambda>events.
     bindE (py_iter events) format_events))"

text \<open>Lines 91 to 111: the arguments of the list request, from the query parameters.\<close>

definition list_request :: "request \<Rightarrow> datetime \<Rightarrow> exn + list_req" where
  "list_request req clock =
     (let date_str = args_get req ''date'' (strftime_Ymd clock)
      in bindE (case args req ''days'' of Some s \<Rightarrow> py_int s | None \<Rightarrow> Inr 7) (\<lambda>days.
         let query = args_get req ''query'' []
         in bindE (strptime_Ymd date_str) (\<lambda>start_date.
            bindE (add_days start_date days) (\<lambda>end_date.
              Inr \<lparr>calendarId = ''primary'',
                   timeMin = Some (isoformat start_date @ ''Z''),
                   timeMax = Some (isoformat end_date @ ''Z''),
                   maxResults = 50,
                   singleEvents = True,
                   orderBy = ''startTime'',
                   q = (if query \<noteq> [] then Some query else None)\<rparr>))))"

definition get_events :: "'s lib \<Rightarrow> request \<Rightarrow> 's world \<Rightarrow> response \<times> 's world" where
  "get_events L req w =
     (case get_calendar_service L w of
        (Inl e, w1) \<Rightarrow> (error500 e, w1)
      | (Inr service, w1) \<Rightarrow>
          (case list_request req (now w1) of
             Inl e \<Rightarrow> (error500 e, w1)
           | Inr r \<Rightarrow>
               let w2 = log_call (EventsList r) w1 in
               (case list_and_format service r (store w2) of
                  Inl e \<Rightarrow> (error500 e, w2)
                | Inr formatted_events \<Rightarrow>
                    (jsonify (JObj [(''success'', JBool True),
                                    (''events'', JList formatted_events),
                                    (''count'', JNum (dec (length formatted_events)))]), w2))))"

text \<open>Lines 155 to 158 of \<open>create_event\<close>, and the same lines 198 to 201 of
  \<open>update_event\<close>: the \<open>start\<close> and \<open>end\<close> of a timed event.\<close>

definition timed_start_end :: "(json \<Rightarrow> string) \<Rightarrow> json \<Rightarrow> exn + json \<times> json" where
  "timed_start_end R data =
     bindE (py_getitem data ''date'') (\<lambda>d.
     bindE (py_getitem data ''time'') (\<lambda>t.
     bindE (py_getitem data ''date'') (\<lambda>d'.
     bindE (py_getitem data ''time'') (\<lambda>t'.
     bindE (py_get data ''end_time'' t') (\<lambda>et.
       let start_datetime = py_str R d @ ''T'' @ py_str R t @ '':00'';
           end_datetime = py_str R d' @ ''T'' @ py_str R et @ '':00''
       in Inr (JObj [(''dateTime'', JStr start_datetime), (''timeZone'', JStr ''America/New_York'')],
               JObj [(''dateTime'', JStr end_datetime), (''timeZone'', JStr ''America/New_York'')]))))))"

text \<open>\<open>a in data and b in data\<close>, with the short circuit.\<close>

definition both_in :: "string \<Rightarrow> string \<Rightarrow> json \<Rightarrow> exn + bool" where
  "both_in a b data = bindE (py_in a data) (\<lambda>x. if x then py_in b data else Inr False)"

text \<open>Lines 146 to 162: the event \<open>create_event\<close> inserts.\<close>

definition build_event :: "(json \<Rightarrow> string) \<Rightarrow> json \<Rightarrow> exn + json" where
  "build_event R data =
     bindE (py_get data ''title'' (JStr ''New Event'')) (\<lambda>summary.
     bindE (py_get data ''description'' (JStr [])) (\<lambda>description.
     bindE (py_get data ''location'' (JStr [])) (\<lambda>location.
       let event = [(''summary'', summary), (''description'', description), (''location'', location)]
       in bindE (both_in ''date'' ''time'' data) (\<lambda>timed.
            if timed then
              bindE (timed_start_end R data) (\<lambda>(st, en).
                Inr (JObj (AList.update ''end'' en (AList.update ''start'' st event))))
            else
              bindE (py_in ''date'' data) (\<lambda>all_day.
                if all_day then
                  bindE (py_getitem data ''date'') (\<lambda>d.
                  bindE (py_getitem data ''date'') (\<lambda>d'.
                    Inr (JObj (AList.update ''end'' (JObj [(''date'', d')])
                                (AList.update ''start'' (JObj [(''date'', d)]) event)))))
                else Inr (JObj event))))))"

text \<open>Lines 167 to 172: the body of the success response of \<open>create_event\<close>.\<close>

definition created_body :: "(json \<Rightarrow> string) \<Rightarrow> json \<Rightarrow> json \<Rightarrow> exn + json" where
  "created_body R data created_event =
     bindE (py_getitem created_event ''id'') (\<lambda>event_id.
     bindE (py_get created_event ''htmlLink'' JNull) (\<lambda>event_link.
     bindE (py_get data ''title'' JNull) (\<lambda>title.
       Inr (JObj [(''success'', JBool True),
                  (''event_id'', event_id),
                  (''event_link'', event_link),
                  (''message'', JStr (''Event '' @ quote (py_str R title)
                                       @ '' created successfully''))]))))"

definition create_event :: "'s lib \<Rightarrow> request \<Rightarrow> 's world \<Rightarrow> response \<times> 's world" where
  "create_event L req w =
     (case get_calendar_service L w of
        (Inl e, w1) \<Rightarrow> (error500 e, w1)
      | (Inr service, w1) \<Rightarrow>
          (case bindE (req_json req) (\<lambda>data.
                bindE (build_event (repr L) data) (\<lambda>event. Inr (data, event))) of
             Inl e \<Rightarrow> (error500 e, w1)
           | Inr (data, event) \<Rightarrow>
               let w2 = log_call (EventsInsert ''primary'' event) w1 in
               (case events_insert service ''primary'' event (store w2) of
                  (Inl e, s') \<Rightarrow> (error500 e, w2\<lparr>store := s'\<rparr>)
                | (Inr created_event, s') \<Rightarrow>
                    (case created_body (repr L) data created_event of
                       Inl e \<Rightarrow> (error500 e, w2\<lparr>store := s'\<rparr>)
                     | Inr b \<Rightarrow> (jsonify b, w2\<lparr>store := s'\<rparr>)))))"

text \<open>\<open>if k in data: event[k'] = data[k]\<close>.\<close>

definition overlay :: "string \<Rightarrow> string \<Rightarrow> json \<Rightarrow> json \<Rightarrow> exn + json" where
  "overlay k k' data event =
     bindE (py_in k data) (\<lambda>present.
       if present then bindE (py_getitem data k) (\<lambda>v. py_setitem event k' v)
       else Inr event)"

text \<open>Lines 188 to 201: the fetched event with the fields of the body laid over it.\<close>

definition updated_fields :: "(json \<Rightarrow> string) \<Rightarrow> json \<Rightarrow> json \<Rightarrow> exn + json" where
  "updated_fields R data event =
     bindE (overlay ''title'' ''summary'' data event) (\<lambda>event.
     bindE (overlay ''description'' ''description'' data event) (\<lambda>event.
     bindE (overlay ''location'' ''location'' data event) (\<lambda>event.
     bindE (both_in ''date'' ''time'' data) (\<lambda>timed.
       if timed then
         bindE (timed_start_end R data) (\<lambda>(st, en).
         bindE (py_setitem event ''start'' st) (\<lambda>event.
           py_setitem event ''end'' en))
       else Inr event))))"

definition update_event :: "'s lib \<Rightarrow> string \<Rightarrow> request \<Rightarrow> 's world \<Rightarrow> response \<times> 's world" where
  "update_event L event_id req w =
     (case get_calendar_service L w of
        (Inl e, w1) \<Rightarrow> (error500 e, w1)
      | (Inr service, w1) \<Rightarrow>
          (case req_json req of
             Inl e \<Rightarrow> (error500 e, w1)
           | Inr data \<Rightarrow>
               let w2 = log_call (EventsGet ''primary'' event_id) w1 in
               (case bindE (events_get service ''primary'' event_id (store w2))
                           (updated_fields (repr L) data) of
                  Inl e \<Rightarrow> (error500 e, w2)
                | Inr event \<Rightarrow>
                    let w3 = log_call (EventsUpdate ''primary'' event_id event) w2 in
                    (case events_update service ''primary'' event_id event (store w3) of
                       (Inl e, s') \<Rightarrow> (error500 e, w3\<lparr>store := s'\<rparr>)
                     | (Inr updated_event, s') \<Rightarrow>
                         (case py_get updated_event ''htmlLink'' JNull of
                            Inl e \<Rightarrow> (error500 e, w3\<lparr>store := s'\<rparr>)
                          | Inr event_link \<Rightarrow>
                              (jsonify (JObj [(''success'', JBool True),
                                              (''message'', JStr ''Event updated successfully''),
                                              (''event_link'', event_link)]),
                               w3\<lparr>store := s'\<rparr>))))))"

definition delete_event :: "'s lib \<Rightarrow> string \<Rightarrow> request \<Rightarrow> 's world \<Rightarrow> response \<times> 's world" where
  "delete_event L event_id req w =
     (case get_calendar_service L w of
        (Inl e, w1) \<Rightarrow> (error500 e, w1)
      | (Inr service, w1) \<Rightarrow>
          let w2 = log_call (EventsGet ''primary'' event_id) w1 in
          (case bindE (events_get service ''primary'' event_id (store w2)) (\<lambda>event.
                  py_get event ''summary'' (JStr ''Untitled Event'')) of
             Inl e \<Rightarrow> (error500 e, w2)
           | Inr event_title \<Rightarrow>
               let w3 = log_call (EventsDelete ''primary'' event_id) w2 in
               (case events_delete service ''primary'' event_id (store w3) of
                  (Inl e, s') \<Rightarrow> (error500 e, w3\<lparr>store := s'\<rparr>)
                | (Inr u, s') \<Rightarrow>
                    (jsonify (JObj [(''success'', JBool True),
                                    (''message'', JStr (''Event '' @ quote (py_str (repr L) event_title)
                                                         @ '' deleted successfully''))]),
                     w3\<lparr>store := s'\<rparr>))))"

definition search_events :: "'s lib \<Rightarrow> request \<Rightarrow> 's world \<Rightarrow> response \<times> 's world" where
  "search_events L req w =
     (case get_calendar_service L w of
        (Inl e, w1) \<Rightarrow> (error500 e, w1)
      | (Inr service, w1) \<Rightarrow>
          let query = args_get req ''query'' [] in
          if query = [] then
            (with_status (jsonify (JObj [(''success'', JBool False),
                                         (''error'', JStr ''Query parameter required'')])) 400, w1)
          else
            let r = \<lparr>calendarId = ''primary'', timeMin = None, timeMax = None, maxResults = 25,
                     singleEvents = True, orderBy = ''startTime'', q = Some query\<rparr>;
                w2 = log_call (EventsList r) w1
            in (case list_and_format service r (store w2) of
                  Inl e \<Rightarrow> (error500 e, w2)
                | Inr formatted_events \<Rightarrow>
                    (jsonify (JObj [(''success'', JBool True),
                                    (''events'', JList formatted_events),
                                    (''count'', JNum (dec (length formatted_events))),
                                    (''query'', JStr query)]), w2)))"

definition health_check :: "response" where
  "health_check = jsonify (JObj [(''status'', JStr ''healthy''), (''service'', JStr ''calendar-api'')])"

text \<open>The routes of the application; every handler but \<open>health_check\<close> is wrapped by
  \<open>require_api_key\<close>.\<close>

definition dispatch :: "'s lib \<Rightarrow> request \<Rightarrow> 's world \<Rightarrow> response \<times> 's world" where
  "dispatch L req w =
     (case route req of
        GET_events \<Rightarrow> require_api_key (get_events L) req w
      | POST_events \<Rightarrow> require_api_key (create_event L) req w
      | PUT_event event_id \<Rightarrow> require_api_key (update_event L event_id) req w
      | DELETE_event event_id \<Rightarrow> require_api_key (delete_event L event_id) req w
      | GET_events_search \<Rightarrow> require_api_key (search_events L) req w
      | GET_health \<Rightarrow> (health_check, w))"

section \<open>The simplified event, as specified\<close>

text \<open>
  The simplified event in the words of the specification: the provider's id; the summary, or
  \<open>No title\<close> when there is none; for start and end the \<open>dateTime\<close> when present and
  otherwise the \<open>date\<close>; description and location, empty when absent.
\<close>

definition field :: "json \<Rightarrow> string \<Rightarrow> json \<Rightarrow> json" where
  "field v k d = (case v of JObj al \<Rightarrow> (case map_of al k of Some x \<Rightarrow> x | None \<Rightarrow> d) | _ \<Rightarrow> d)"

definition has_field :: "json \<Rightarrow> string \<Rightarrow> bool" where
  "has_field v k = (case v of JObj al \<Rightarrow> map_of al k \<noteq> None | _ \<Rightarrow> False)"

definition spec_time :: "json \<Rightarrow> json" where
  "spec_time t = (if has_field t ''dateTime'' then field t ''dateTime'' JNull else field t ''date'' JNull)"

definition spec_simplified :: "json \<Rightarrow> json" where
  "spec_simplified e =
     JObj [(''id'', field e ''id'' JNull),
           (''title'', if has_field e ''summary'' then field e ''summary'' JNull else JStr ''No title''),
           (''start'', spec_time (field e ''start'' JNull)),
           (''end'', spec_time (field e ''end'' JNull)),
           (''description'', field e ''description'' (JStr [])),
           (''location'', field e ''location'' (JStr []))]"

definition is_obj :: "json \<Rightarrow> bool" where
  "is_obj v = (case v of JObj al \<Rightarrow> True | _ \<Rightarrow> False)"

text \<open>
  What the provider's contract gives of an event in a list response: it is an object, it
  has an \<open>id\<close>, its \<open>start\<close> and \<open>end\<close> are objects, and no field it carries is null.
\<close>

definition provider_event :: "json \<Rightarrow> bool" where
  "provider_event e =
     (is_obj e \<and> has_field e ''id'' \<and> field e ''id'' JNull \<noteq> JNull
      \<and> is_obj (field e ''start'' JNull) \<and> is_obj (field e ''end'' JNull)
      \<and> field e ''summary'' (JStr []) \<noteq> JNull)"

section \<open>A remote store in memory\<close>

text \<open>
  A small event store, used to run the handlers on concrete requests: events by id, in
  insertion order. \<open>get\<close>, \<open>update\<close> and \<open>delete\<close> of an unknown id fail the way the remote
  service answers 404.
\<close>

definition not_found :: exn where
  "not_found = PyErr ''HttpError'' ''Not Found''"

definition mem_service :: "(string \<times> json) list service" where
  "mem_service =
     \<lparr>events_list = (\<lambda>r s. Inr (JObj [(''items'', JList (map snd s))])),
      events_get = (\<lambda>cal i s. case map_of s i of Some e \<Rightarrow> Inr e | None \<Rightarrow> Inl not_found),
      events_insert = (\<lambda>cal b s.
         let i = ''ev'' @ dec (length s);
             created = (case py_setitem b ''id'' (JStr i) of Inr c \<Rightarrow> c | Inl e \<Rightarrow> b)
         in (Inr created, s @ [(i, created)])),
      events_update = (\<lambda>cal i b s.
         case map_of s i of Some e \<Rightarrow> (Inr b, AList.update i b s) | None \<Rightarrow> (Inl not_found, s)),
      events_delete = (\<lambda>cal i s.
         case map_of s i of Some e \<Rightarrow> (Inr (), AList.delete i s) | None \<Rightarrow> (Inl not_found, s))\<rparr>"

definition fresh_creds :: creds where
  "fresh_creds = \<lparr>token = ''fresh'', valid = True, expired = False, refresh_token = Some ''r1''\<rparr>"

definition stale_creds :: creds where
  "stale_creds = \<lparr>token = ''stale'', valid = False, expired = True, refresh_token = Some ''r0''\<rparr>"

text \<open>Libraries for the concrete runs: only the text \<open>{}\<close> parses as JSON, a refresh and
  the interactive flow succeed, and every service is the store in memory.\<close>

definition mem_lib :: "(string \<times> json) list lib" where
  "mem_lib =
     \<lparr>json_loads = (\<lambda>s. if s = ''{}'' then Inr (JObj [])
                         else Inl (PyErr ''JSONDecodeError'' ''Expecting value'')),
      from_authorized_user_info = (\<lambda>j. Inl (ValueError ''missing fields refresh_token'')),
      refresh = (\<lambda>c. Inr (c\<lparr>token := ''refreshed'', valid := True, expired := False\<rparr>)),
      from_client_config = (\<lambda>j. Inr (InstalledAppFlow j)),
      from_client_secrets_file = (\<lambda>content. Inr (InstalledAppFlow (JStr content))),
      run_local_server = (\<lambda>fl. Inr fresh_creds),
      build = (\<lambda>c. Inr mem_service),
      repr = (\<lambda>v. ''<repr>'')\<rparr>"

definition standup :: json where
  "standup = JObj [(''id'', JStr ''e1''), (''summary'', JStr ''Standup''),
                   (''description'', JStr ''Daily''), (''location'', JStr ''Room 1''),
                   (''start'', JObj [(''dateTime'', JStr ''2025-01-10T09:00:00-05:00'')]),
                   (''end'', JObj [(''dateTime'', JStr ''2025-01-10T09:15:00-05:00'')])]"

definition holiday :: json where
  "holiday = JObj [(''id'', JStr ''e2''),
                   (''start'', JObj [(''date'', JStr ''2025-01-20'')]),
                   (''end'', JObj [(''date'', JStr ''2025-01-21'')])]"

text \<open>A development set-up: a valid credential in \<open>token.pickle\<close>, nothing in the
  environment but the API key, two events in the store.\<close>

definition mem_world :: "(string \<times> json) list world" where
  "mem_world =
     \<lparr>API_KEY = ''dev-key-for-local-testing'',
      GOOGLE_CREDENTIALS = None,
      GOOGLE_TOKEN = None,
      token_pickle = Some (Pickle fresh_creds),
      credentials_json = None,
      now = \<lparr>year = 2025, month = 1, day = 10, hour = 8, minute = 30, second = 0\<rparr>,
      stdout = [],
      calls = [],
      store = [(''e1'', standup), (''e2'', holiday)]\<rparr>"

definition mem_request :: "route \<Rightarrow> (string \<times> string) list \<Rightarrow> exn + json \<Rightarrow> request" where
  "mem_request r a b =
     \<lparr>route = r, headers = map_of [(''X-API-Key'', ''dev-key-for-local-testing'')],
      args = map_of a, req_json = b\<rparr>"

definition no_body :: "exn + json" where
  "no_body = Inl (PyErr ''UnsupportedMediaType'' ''415 Unsupported Media Type'')"

section \<open>Properties\<close>

subsection \<open>Shared facts\<close>

lemma dispatch_with_key:
  assumes "headers req ''X-API-Key'' = Some (API_KEY w)"
  shows "dispatch L req w =
           (case route req of
              GET_events \<Rightarrow> get_events L req w
            | POST_events \<Rightarrow> create_event L req w
            | PUT_event event_id \<Rightarrow> update_event L event_id req w
            | DELETE_event event_id \<Rightarrow> delete_event L event_id req w
            | GET_events_search \<Rightarrow> search_events L req w
            | GET_health \<Rightarrow> (health_check, w))"
  using assms by (simp add: dispatch_def require_api_key_def split: route.splits)

lemma load_creds_frame:
  assumes "load_creds L w = (r, w')"
  shows "store w' = store w \<and> calls w' = calls w \<and> token_pickle w' = token_pickle w
         \<and> GOOGLE_TOKEN w' = GOOGLE_TOKEN w \<and> GOOGLE_CREDENTIALS w' = GOOGLE_CREDENTIALS w
         \<and> credentials_json w' = credentials_json w \<and> API_KEY w' = API_KEY w \<and> now w' = now w"
  using assms
  by (auto simp: load_creds_def print_def split: if_splits sum.splits option.splits pickled.splits)

lemma run_flow_frame:
  assumes "run_flow L w = (r, w')"
  shows "store w' = store w
         \<and> GOOGLE_TOKEN w' = GOOGLE_TOKEN w \<and> GOOGLE_CREDENTIALS w' = GOOGLE_CREDENTIALS w
         \<and> credentials_json w' = credentials_json w \<and> API_KEY w' = API_KEY w \<and> now w' = now w
         \<and> stdout w' = stdout w"
  using assms
  by (auto simp: run_flow_def log_call_def split: if_splits sum.splits option.splits)

lemma authorize_frame:
  assumes "authorize L cr w = (r, w')"
  shows "store w' = store w
         \<and> GOOGLE_TOKEN w' = GOOGLE_TOKEN w \<and> GOOGLE_CREDENTIALS w' = GOOGLE_CREDENTIALS w
         \<and> credentials_json w' = credentials_json w \<and> API_KEY w' = API_KEY w \<and> now w' = now w
         \<and> stdout w' = stdout w"
proof (cases cr)
  case None
  with assms show ?thesis by (simp add: authorize_def run_flow_frame)
next
  case (Some c)
  with assms show ?thesis
    by (auto simp: authorize_def log_call_def run_flow_frame split: if_splits)
qed

lemma get_calendar_service_frame:
  assumes "get_calendar_service L w = (r, w')"
  shows "store w' = store w
         \<and> GOOGLE_TOKEN w' = GOOGLE_TOKEN w \<and> GOOGLE_CREDENTIALS w' = GOOGLE_CREDENTIALS w
         \<and> credentials_json w' = credentials_json w \<and> API_KEY w' = API_KEY w \<and> now w' = now w"
proof -
  obtain r1 w1 where l: "load_creds L w = (r1, w1)" by (cases "load_creds L w")
  note f1 = load_creds_frame [OF l]
  show ?thesis
  proof (cases r1)
    case (Inl e)
    with assms l f1 show ?thesis by (simp add: get_calendar_service_def)
  next
    case (Inr cr)
    obtain r2 w2 where a: "authorize L cr w1 = (r2, w2)" by (cases "authorize L cr w1")
    note f2 = authorize_frame [OF a]
    from assms l Inr a f1 f2 show ?thesis
      by (cases r2) (auto simp: get_calendar_service_def log_call_def)
  qed
qed

lemma get_calendar_service_store:
  "store (snd (get_calendar_service L w)) = store w"
  using get_calendar_service_frame [of L w "fst (get_calendar_service L w)" "snd (get_calendar_service L w)"]
  by simp

subsection \<open>The API key\<close>

text \<open>
  C1. On every route other than \<open>GET /health\<close>, a request whose \<open>X-API-Key\<close> header is
  absent or is not the configured key is answered with status 401 and the body
  \<open>{success: false, error: "Invalid or missing API key"}\<close>, and the world is left exactly
  as it was: the handler did not run, so nothing was printed, no credential was acquired
  and no call was made.
\<close>

theorem api_key_required:
  assumes "route req \<noteq> GET_health"
    and "headers req ''X-API-Key'' \<noteq> Some (API_KEY w)"
  shows "dispatch L req w =
           (\<lparr>status = 401,
              body = JObj [(''success'', JBool False),
                           (''error'', JStr ''Invalid or missing API key'')]\<rparr>, w)"
  using assms
  by (cases "route req")
     (simp_all add: dispatch_def require_api_key_def with_status_def jsonify_def)

theorem api_key_required_witness:
  "route ((mem_request (DELETE_event ''e1'') [] no_body)\<lparr>headers := Map.empty\<rparr>) \<noteq> GET_health
   \<and> headers ((mem_request (DELETE_event ''e1'') [] no_body)\<lparr>headers := Map.empty\<rparr>) ''X-API-Key''
       \<noteq> Some (API_KEY mem_world)
   \<and> dispatch mem_lib ((mem_request (DELETE_event ''e1'') [] no_body)\<lparr>headers := Map.empty\<rparr>) mem_world =
       (\<lparr>status = 401,
          body = JObj [(''success'', JBool False),
                       (''error'', JStr ''Invalid or missing API key'')]\<rparr>, mem_world)"
  using api_key_required [of "(mem_request (DELETE_event ''e1'') [] no_body)\<lparr>headers := Map.empty\<rparr>"
                             mem_world mem_lib]
  by (simp add: mem_request_def)

subsection \<open>Search without a query\<close>

text \<open>
  C2, as the program has it. \<open>search_events\<close> obtains the calendar service before it looks
  at the query. A request to \<open>GET /events/search\<close> with the right key and a missing or
  empty \<open>query\<close> is answered with status 400 and \<open>{success: false, error: "Query parameter
  required"}\<close> whenever \<open>get_calendar_service\<close> returns, and no request is sent to the event
  store; when \<open>get_calendar_service\<close> raises, the answer is the 500 of that exception.
\<close>

theorem search_events_empty_query:
  assumes "route req = GET_events_search"
    and "headers req ''X-API-Key'' = Some (API_KEY w)"
    and "args req ''query'' = None \<or> args req ''query'' = Some []"
  shows "dispatch L req w =
           (case get_calendar_service L w of
              (Inl e, w1) \<Rightarrow>
                (\<lparr>status = 500,
                   body = JObj [(''success'', JBool False), (''error'', JStr (str_exn e))]\<rparr>, w1)
            | (Inr service, w1) \<Rightarrow>
                (\<lparr>status = 400,
                   body = JObj [(''success'', JBool False),
                                (''error'', JStr ''Query parameter required'')]\<rparr>, w1))"
proof -
  from assms(3) have q: "args_get req ''query'' [] = []"
    by (auto simp: args_get_def)
  obtain r w1 where g: "get_calendar_service L w = (r, w1)"
    by (cases "get_calendar_service L w")
  show ?thesis
    using assms(1,2) q g
    by (cases r)
       (simp_all add: dispatch_with_key search_events_def error500_def with_status_def jsonify_def)
qed

theorem search_events_empty_query_witness:
  "route (mem_request GET_events_search [(''query'', [])] no_body) = GET_events_search
   \<and> headers (mem_request GET_events_search [(''query'', [])] no_body) ''X-API-Key''
       = Some (API_KEY mem_world)
   \<and> args (mem_request GET_events_search [(''query'', [])] no_body) ''query'' = Some []
   \<and> status (fst (dispatch mem_lib (mem_request GET_events_search [(''query'', [])] no_body) mem_world))
       = 400
   \<and> calls (snd (dispatch mem_lib (mem_request GET_events_search [(''query'', [])] no_body) mem_world))
       = [Build fresh_creds]"
  using search_events_empty_query
          [of "mem_request GET_events_search [(''query'', [])] no_body" mem_world mem_lib]
  by (simp add: mem_request_def mem_world_def mem_lib_def get_calendar_service_def load_creds_def
                authorize_def fresh_creds_def log_call_def)

text \<open>As the specification states it, the property fails: with no credential source at all, the same request is
  answered with status 500.\<close>

theorem search_events_empty_query_counterexample:
  "fst (dispatch mem_lib (mem_request GET_events_search [] no_body)
          (mem_world\<lparr>token_pickle := None\<rparr>)) =
     \<lparr>status = 500,
        body = JObj [(''success'', JBool False),
                     (''error'', JStr ''No credentials found. Set GOOGLE_CREDENTIALS environment variable or provide credentials.json'')]\<rparr>"
  by (simp add: dispatch_def require_api_key_def search_events_def get_calendar_service_def
                load_creds_def authorize_def run_flow_def Exception_def error500_def
                with_status_def jsonify_def mem_request_def mem_world_def)

subsection \<open>Deleting an event\<close>

lemma store_log_call: "store (log_call c w) = store w"
  by (simp add: log_call_def)

lemma calls_log_call: "calls (log_call c w) = calls w @ [c]"
  by (simp add: log_call_def)

text \<open>
  C3. \<open>delete_event\<close> sends the \<open>get\<close> request first and the \<open>delete\<close> request, if at all,
  right after it. When the \<open>get\<close> fails with \<open>e\<close> (the id does not exist, say), the answer
  is status 500 with \<open>{success: false, error: str(e)}\<close>, the only call made after the
  service was built is that \<open>get\<close>, and the remote store is the one the request found.
\<close>

theorem delete_event_fetch_first:
  assumes "route req = DELETE_event event_id"
    and "headers req ''X-API-Key'' = Some (API_KEY w)"
    and "get_calendar_service L w = (Inr service, w1)"
  shows "(\<forall>e. events_get service ''primary'' event_id (store w1) = Inl e \<longrightarrow>
            dispatch L req w =
              (\<lparr>status = 500,
                 body = JObj [(''success'', JBool False), (''error'', JStr (str_exn e))]\<rparr>,
               w1\<lparr>calls := calls w1 @ [EventsGet ''primary'' event_id]\<rparr>)
            \<and> store (snd (dispatch L req w)) = store w
            \<and> EventsDelete ''primary'' event_id
                 \<notin> set (drop (length (calls w1)) (calls (snd (dispatch L req w)))))
       \<and> (calls (snd (dispatch L req w)) = calls w1 @ [EventsGet ''primary'' event_id]
          \<or> calls (snd (dispatch L req w)) =
               calls w1 @ [EventsGet ''primary'' event_id, EventsDelete ''primary'' event_id])"
proof -
  have d: "dispatch L req w = delete_event L event_id req w"
    using assms(1,2) by (simp add: dispatch_with_key)
  have s: "store w1 = store w"
    using get_calendar_service_frame [OF assms(3)] by simp
  have fail: "delete_event L event_id req w =
                (\<lparr>status = 500,
                   body = JObj [(''success'', JBool False), (''error'', JStr (str_exn e))]\<rparr>,
                 w1\<lparr>calls := calls w1 @ [EventsGet ''primary'' event_id]\<rparr>)"
    if "events_get service ''primary'' event_id (store w1) = Inl e" for e
    using that assms(3)
    by (simp add: delete_event_def store_log_call error500_def with_status_def jsonify_def
                  log_call_def)
  have order: "calls (snd (delete_event L event_id req w)) = calls w1 @ [EventsGet ''primary'' event_id]
          \<or> calls (snd (delete_event L event_id req w)) =
               calls w1 @ [EventsGet ''primary'' event_id, EventsDelete ''primary'' event_id]"
    using assms(3)
    by (auto simp: delete_event_def store_log_call calls_log_call Let_def
             split: sum.splits prod.splits)
  show ?thesis
    using fail order s by (simp add: d)
qed

theorem delete_event_fetch_first_witness:
  "dispatch mem_lib (mem_request (DELETE_event ''nope'') [] no_body) mem_world =
     (\<lparr>status = 500,
        body = JObj [(''success'', JBool False), (''error'', JStr ''Not Found'')]\<rparr>,
      mem_world\<lparr>calls := [Build fresh_creds, EventsGet ''primary'' ''nope'']\<rparr>)
   \<and> calls (snd (dispatch mem_lib (mem_request (DELETE_event ''e2'') [] no_body) mem_world)) =
       [Build fresh_creds, EventsGet ''primary'' ''e2'', EventsDelete ''primary'' ''e2'']"
proof -
  have g: "get_calendar_service mem_lib mem_world =
             (Inr mem_service, mem_world\<lparr>calls := [Build fresh_creds]\<rparr>)"
    by (simp add: get_calendar_service_def load_creds_def authorize_def mem_world_def
                  mem_lib_def fresh_creds_def log_call_def)
  have k: "headers (mem_request r a b) ''X-API-Key'' = Some (API_KEY mem_world)" for r a b
    by (simp add: mem_request_def mem_world_def)
  have "events_get mem_service ''primary'' ''nope'' (store (mem_world\<lparr>calls := [Build fresh_creds]\<rparr>))
          = Inl not_found"
    by (simp add: mem_service_def mem_world_def)
  with delete_event_fetch_first [of "mem_request (DELETE_event ''nope'') [] no_body" "''nope''"
         mem_world mem_lib mem_service "mem_world\<lparr>calls := [Build fresh_creds]\<rparr>"] g k
  have a: "dispatch mem_lib (mem_request (DELETE_event ''nope'') [] no_body) mem_world =
     (\<lparr>status = 500,
        body = JObj [(''success'', JBool False), (''error'', JStr ''Not Found'')]\<rparr>,
      mem_world\<lparr>calls := [Build fresh_creds, EventsGet ''primary'' ''nope'']\<rparr>)"
    by (simp add: mem_request_def not_found_def)
  have b: "calls (snd (dispatch mem_lib (mem_request (DELETE_event ''e2'') [] no_body) mem_world)) =
       [Build fresh_creds, EventsGet ''primary'' ''e2'', EventsDelete ''primary'' ''e2'']"
    using g k [of "DELETE_event ''e2''" "[]" no_body]
    by (simp add: dispatch_with_key delete_event_def store_log_call calls_log_call
                  mem_service_def mem_world_def mem_request_def holiday_def standup_def)
  from a b show ?thesis by simp
qed

subsection \<open>The credential store\<close>

text \<open>
  C8, as the program has it. When the inline token value is present (not empty) and
  parsing it raises \<open>e\<close>, the failure is printed and no credential is loaded: the branch
  that reads \<open>token.pickle\<close> is the \<open>elif\<close> of the test for the inline value, so the file is
  not consulted whatever it holds, and \<open>get_calendar_service\<close> goes on with the
  interactive flow. The file is consulted only when the inline value is absent or empty.
\<close>

theorem inline_token_parse_failure:
  assumes "GOOGLE_TOKEN w = Some t" and "t \<noteq> []"
    and "bindE (json_loads L t) (from_authorized_user_info L) = Inl e"
  shows "load_creds L (w\<lparr>token_pickle := p\<rparr>) =
           (Inr None,
            w\<lparr>token_pickle := p,
              stdout := stdout w @ [''Error loading token from environment: '' @ str_exn e]\<rparr>)
         \<and> get_calendar_service L w =
             (case run_flow L (w\<lparr>stdout := stdout w
                                  @ [''Error loading token from environment: '' @ str_exn e]\<rparr>) of
                (Inl e', w2) \<Rightarrow> (Inl e', w2)
              | (Inr c, w2) \<Rightarrow> (build L c, log_call (Build c) w2))
         \<and> load_creds L (w\<lparr>GOOGLE_TOKEN := None\<rparr>) =
             (case token_pickle w of
                Some (Pickle c) \<Rightarrow> Inr (Some c)
              | Some (Corrupt e') \<Rightarrow> Inl e'
              | None \<Rightarrow> Inr None, w\<lparr>GOOGLE_TOKEN := None\<rparr>)"
proof -
  have a: "load_creds L (w\<lparr>token_pickle := p\<rparr>) =
           (Inr None,
            w\<lparr>token_pickle := p,
              stdout := stdout w @ [''Error loading token from environment: '' @ str_exn e]\<rparr>)"
    for p
    using assms by (simp add: load_creds_def print_def)
  have "load_creds L w =
           (Inr None,
            w\<lparr>stdout := stdout w @ [''Error loading token from environment: '' @ str_exn e]\<rparr>)"
    using a [of "token_pickle w"] by simp
  then have b: "get_calendar_service L w =
             (case run_flow L (w\<lparr>stdout := stdout w
                                  @ [''Error loading token from environment: '' @ str_exn e]\<rparr>) of
                (Inl e', w2) \<Rightarrow> (Inl e', w2)
              | (Inr c, w2) \<Rightarrow> (build L c, log_call (Build c) w2))"
    by (simp add: get_calendar_service_def authorize_def split: prod.splits sum.splits)
  have c: "load_creds L (w\<lparr>GOOGLE_TOKEN := None\<rparr>) =
             (case token_pickle w of
                Some (Pickle c) \<Rightarrow> Inr (Some c)
              | Some (Corrupt e') \<Rightarrow> Inl e'
              | None \<Rightarrow> Inr None, w\<lparr>GOOGLE_TOKEN := None\<rparr>)"
    by (simp add: load_creds_def split: option.splits pickled.splits)
  from a b c show ?thesis by simp
qed

theorem inline_token_parse_failure_witness:
  "load_creds mem_lib (mem_world\<lparr>GOOGLE_TOKEN := Some ''{not json'', token_pickle := Some (Pickle fresh_creds)\<rparr>) =
     (Inr None,
      mem_world\<lparr>GOOGLE_TOKEN := Some ''{not json'', token_pickle := Some (Pickle fresh_creds),
                stdout := [''Error loading token from environment: Expecting value'']\<rparr>)"
proof -
  have "bindE (json_loads mem_lib ''{not json'') (from_authorized_user_info mem_lib)
          = Inl (PyErr ''JSONDecodeError'' ''Expecting value'')"
    by (simp add: mem_lib_def)
  from inline_token_parse_failure
         [of "mem_world\<lparr>GOOGLE_TOKEN := Some ''{not json''\<rparr>" "''{not json''" mem_lib
             "PyErr ''JSONDecodeError'' ''Expecting value''" "Some (Pickle fresh_creds)", OF _ _ this]
  show ?thesis by (simp add: mem_world_def)
qed

text \<open>As the specification states it, the property fails: with an inline token that does not parse and a valid
  credential in \<open>token.pickle\<close>, no credential is loaded, while without the inline token
  the file's credential is.\<close>

theorem inline_token_parse_failure_counterexample:
  "fst (load_creds mem_lib (mem_world\<lparr>GOOGLE_TOKEN := Some ''{not json''\<rparr>)) = Inr None
   \<and> fst (load_creds mem_lib (mem_world\<lparr>GOOGLE_TOKEN := None\<rparr>)) = Inr (Some fresh_creds)
   \<and> token_pickle mem_world = Some (Pickle fresh_creds)
   \<and> fst (get_calendar_service mem_lib (mem_world\<lparr>GOOGLE_TOKEN := Some ''{not json''\<rparr>)) =
       Inl (PyErr ''Exception''
              ''No credentials found. Set GOOGLE_CREDENTIALS environment variable or provide credentials.json'')"
  by (simp add: load_creds_def get_calendar_service_def authorize_def run_flow_def print_def
                Exception_def mem_world_def mem_lib_def)

lemma run_flow_cases:
  assumes "run_flow L w = (r, w')"
  shows "(\<exists>fl c. r = Inr c \<and> run_local_server L fl = Inr c
            \<and> calls w' = calls w @ [RunLocalServer fl] \<and> token_pickle w' = Some (Pickle c))
         \<or> (\<exists>e. r = Inl e \<and> token_pickle w' = token_pickle w
              \<and> (calls w' = calls w \<or> (\<exists>fl. calls w' = calls w @ [RunLocalServer fl])))"
  using assms
  by (auto simp: run_flow_def log_call_def split: if_splits sum.splits option.splits; metis)

lemma authorize_cases:
  assumes "authorize L cr w = (r, w')"
  shows "(\<exists>fl c. r = Inr c \<and> run_local_server L fl = Inr c
            \<and> calls w' = calls w @ [RunLocalServer fl] \<and> token_pickle w' = Some (Pickle c))
         \<or> (\<exists>e. r = Inl e \<and> token_pickle w' = token_pickle w
              \<and> (calls w' = calls w \<or> (\<exists>fl. calls w' = calls w @ [RunLocalServer fl])))
         \<or> (\<exists>c. cr = Some c \<and> r = refresh L c \<and> token_pickle w' = token_pickle w
              \<and> calls w' = calls w @ [Refresh c])
         \<or> (\<exists>c. cr = Some c \<and> valid c \<and> r = Inr c \<and> w' = w)"
proof (cases cr)
  case None
  with assms have "run_flow L w = (r, w')" by (simp add: authorize_def)
  from run_flow_cases [OF this] show ?thesis by blast
next
  case (Some c)
  show ?thesis
  proof (cases "valid c")
    case True
    with assms Some show ?thesis by (simp add: authorize_def)
  next
    case False
    show ?thesis
    proof (cases "expired c \<and> truthy (refresh_token c)")
      case True
      with assms Some \<open>\<not> valid c\<close> show ?thesis
        by (auto simp: authorize_def log_call_def)
    next
      case False
      with assms Some \<open>\<not> valid c\<close> have "run_flow L w = (r, w')"
        by (auto simp: authorize_def)
      from run_flow_cases [OF this] show ?thesis by blast
    qed
  qed
qed

lemma get_calendar_service_cases:
  assumes "get_calendar_service L w = (r, w')"
  shows "(\<exists>fl c. run_local_server L fl = Inr c \<and> r = build L c
            \<and> calls w' = calls w @ [RunLocalServer fl, Build c]
            \<and> token_pickle w' = Some (Pickle c))
         \<or> (\<exists>c c'. refresh L c = Inr c' \<and> r = build L c'
              \<and> calls w' = calls w @ [Refresh c, Build c']
              \<and> token_pickle w' = token_pickle w)
         \<or> (\<exists>c. valid c \<and> r = build L c \<and> calls w' = calls w @ [Build c]
              \<and> token_pickle w' = token_pickle w)
         \<or> (\<exists>e. r = Inl e \<and> token_pickle w' = token_pickle w
              \<and> (calls w' = calls w \<or> (\<exists>fl. calls w' = calls w @ [RunLocalServer fl])
                  \<or> (\<exists>c. calls w' = calls w @ [Refresh c])))"
proof -
  obtain r1 w1 where l: "load_creds L w = (r1, w1)" by (cases "load_creds L w")
  note f1 = load_creds_frame [OF l]
  show ?thesis
  proof (cases r1)
    case (Inl e)
    with assms l f1 show ?thesis by (auto simp: get_calendar_service_def)
  next
    case (Inr cr)
    obtain r2 w2 where a: "authorize L cr w1 = (r2, w2)" by (cases "authorize L cr w1")
    note c = authorize_cases [OF a]
    show ?thesis
    proof (cases r2)
      case (Inl e)
      with assms l \<open>r1 = Inr cr\<close> a have "r = Inl e" "w' = w2"
        by (simp_all add: get_calendar_service_def)
      with c Inl f1 show ?thesis by auto
    next
      case (Inr c2)
      with assms l \<open>r1 = Inr cr\<close> a have "r = build L c2" "w' = log_call (Build c2) w2"
        by (simp_all add: get_calendar_service_def)
      with c Inr f1 show ?thesis by (auto simp: log_call_def)
    qed
  qed
qed

text \<open>
  C9, as the program has it. \<open>get_calendar_service\<close> writes \<open>token.pickle\<close> in one place
  only, after the interactive flow has returned a new credential: then the file holds
  that credential, which is the one the service is built with. A credential that was
  loaded and refreshed is used to build the service of this call and is written nowhere:
  \<open>token.pickle\<close> stays as it was, as it does on every other path. The inline values
  \<open>GOOGLE_TOKEN\<close> and \<open>GOOGLE_CREDENTIALS\<close> are never written.
\<close>

theorem credential_persistence:
  assumes "get_calendar_service L w = (r, w')"
  shows "GOOGLE_TOKEN w' = GOOGLE_TOKEN w \<and> GOOGLE_CREDENTIALS w' = GOOGLE_CREDENTIALS w
         \<and> (\<forall>fl c. drop (length (calls w)) (calls w') = [RunLocalServer fl, Build c] \<longrightarrow>
               run_local_server L fl = Inr c \<and> r = build L c \<and> token_pickle w' = Some (Pickle c))
         \<and> (\<forall>c c'. drop (length (calls w)) (calls w') = [Refresh c, Build c'] \<longrightarrow>
               refresh L c = Inr c' \<and> r = build L c' \<and> token_pickle w' = token_pickle w)
         \<and> ((\<forall>fl c. drop (length (calls w)) (calls w') \<noteq> [RunLocalServer fl, Build c]) \<longrightarrow>
               token_pickle w' = token_pickle w)"
proof -
  have env: "GOOGLE_TOKEN w' = GOOGLE_TOKEN w \<and> GOOGLE_CREDENTIALS w' = GOOGLE_CREDENTIALS w"
    using get_calendar_service_frame [OF assms] by simp
  from get_calendar_service_cases [OF assms] env show ?thesis
    by (elim disjE exE conjE) auto
qed

theorem credential_persistence_witness:
  "calls (snd (get_calendar_service mem_lib
                 (mem_world\<lparr>token_pickle := None, credentials_json := Some ''{}''\<rparr>))) =
     [RunLocalServer (InstalledAppFlow (JStr ''{}'')), Build fresh_creds]
   \<and> token_pickle (snd (get_calendar_service mem_lib
                 (mem_world\<lparr>token_pickle := None, credentials_json := Some ''{}''\<rparr>))) =
       Some (Pickle fresh_creds)
   \<and> GOOGLE_TOKEN (snd (get_calendar_service mem_lib
                 (mem_world\<lparr>token_pickle := None, credentials_json := Some ''{}''\<rparr>))) = None"
proof -
  have c: "calls (snd (get_calendar_service mem_lib
                 (mem_world\<lparr>token_pickle := None, credentials_json := Some ''{}''\<rparr>))) =
     [RunLocalServer (InstalledAppFlow (JStr ''{}'')), Build fresh_creds]"
    by (simp add: get_calendar_service_def load_creds_def authorize_def run_flow_def log_call_def
                  mem_world_def mem_lib_def)
  from credential_persistence
         [of mem_lib "mem_world\<lparr>token_pickle := None, credentials_json := Some ''{}''\<rparr>"
             "fst (get_calendar_service mem_lib
                 (mem_world\<lparr>token_pickle := None, credentials_json := Some ''{}''\<rparr>))"
             "snd (get_calendar_service mem_lib
                 (mem_world\<lparr>token_pickle := None, credentials_json := Some ''{}''\<rparr>))"] c
  show ?thesis by (simp add: mem_world_def)
qed

text \<open>As the specification states it, the property fails: a credential loaded from \<open>token.pickle\<close> and refreshed is
  used to build the service, and the file still holds the stale one.\<close>

theorem credential_persistence_counterexample:
  "calls (snd (get_calendar_service mem_lib (mem_world\<lparr>token_pickle := Some (Pickle stale_creds)\<rparr>))) =
     [Refresh stale_creds,
      Build \<lparr>token = ''refreshed'', valid = True, expired = False, refresh_token = Some ''r0''\<rparr>]
   \<and> token_pickle (snd (get_calendar_service mem_lib
                          (mem_world\<lparr>token_pickle := Some (Pickle stale_creds)\<rparr>))) =
       Some (Pickle \<lparr>token = ''stale'', valid = False, expired = True, refresh_token = Some ''r0''\<rparr>)"
  by (simp add: get_calendar_service_def load_creds_def authorize_def log_call_def
                mem_world_def mem_lib_def stale_creds_def)

subsection \<open>Creating an event\<close>

lemma bindE_Inr_iff: "bindE x f = Inr y \<longleftrightarrow> (\<exists>v. x = Inr v \<and> f v = Inr y)"
  by (cases x) simp_all

lemma py_get_Inr_iff:
  "py_get v k d = Inr y \<longleftrightarrow>
     (\<exists>al. v = JObj al \<and> y = (case map_of al k of Some x \<Rightarrow> x | None \<Rightarrow> d))"
  by (cases v) auto

lemma py_getitem_Inr_iff:
  "py_getitem v k = Inr y \<longleftrightarrow> (\<exists>al. v = JObj al \<and> map_of al k = Some y)"
  by (cases v) (auto split: option.splits)

lemma both_in_dict:
  "both_in a b (JObj d) = Inr (map_of d a \<noteq> None \<and> map_of d b \<noteq> None)"
  by (simp add: both_in_def)

lemma timed_start_end_dict:
  assumes "map_of d ''date'' = Some dv" and "map_of d ''time'' = Some tv"
  shows "timed_start_end R (JObj d) =
           Inr (JObj [(''dateTime'', JStr (py_str R dv @ ''T'' @ py_str R tv @ '':00'')),
                      (''timeZone'', JStr ''America/New_York'')],
                JObj [(''dateTime'', JStr (py_str R dv @ ''T''
                                            @ py_str R (case map_of d ''end_time'' of
                                                          Some et \<Rightarrow> et | None \<Rightarrow> tv) @ '':00'')),
                      (''timeZone'', JStr ''America/New_York'')])"
  using assms by (simp add: timed_start_end_def)

lemma build_event_timed:
  assumes "map_of d ''date'' = Some dv" and "map_of d ''time'' = Some tv"
  shows "build_event R (JObj d) =
           Inr (JObj [(''summary'', field (JObj d) ''title'' (JStr ''New Event'')),
                      (''description'', field (JObj d) ''description'' (JStr [])),
                      (''location'', field (JObj d) ''location'' (JStr [])),
                      (''start'', JObj [(''dateTime'', JStr (py_str R dv @ ''T'' @ py_str R tv @ '':00'')),
                                        (''timeZone'', JStr ''America/New_York'')]),
                      (''end'', JObj [(''dateTime'', JStr (py_str R dv @ ''T''
                                            @ py_str R (case map_of d ''end_time'' of
                                                          Some et \<Rightarrow> et | None \<Rightarrow> tv) @ '':00'')),
                                      (''timeZone'', JStr ''America/New_York'')])])"
  using assms
  by (simp add: build_event_def both_in_dict timed_start_end_dict [OF assms] field_def)

lemma build_event_all_day:
  assumes "map_of d ''date'' = Some dv" and "map_of d ''time'' = None"
  shows "build_event R (JObj d) =
           Inr (JObj [(''summary'', field (JObj d) ''title'' (JStr ''New Event'')),
                      (''description'', field (JObj d) ''description'' (JStr [])),
                      (''location'', field (JObj d) ''location'' (JStr [])),
                      (''start'', JObj [(''date'', dv)]),
                      (''end'', JObj [(''date'', dv)])])"
  using assms by (simp add: build_event_def both_in_dict field_def)

lemma build_event_undated:
  assumes "map_of d ''date'' = None"
  shows "build_event R (JObj d) =
           Inr (JObj [(''summary'', field (JObj d) ''title'' (JStr ''New Event'')),
                      (''description'', field (JObj d) ''description'' (JStr [])),
                      (''location'', field (JObj d) ''location'' (JStr []))])"
  using assms by (simp add: build_event_def both_in_dict field_def)

lemma create_event_calls:
  assumes "get_calendar_service L w = (Inr service, w1)"
    and "req_json req = Inr data"
    and "build_event (repr L) data = Inr event"
  shows "calls (snd (create_event L req w)) = calls w1 @ [EventsInsert ''primary'' event]"
  using assms
  by (auto simp: create_event_def calls_log_call Let_def split: prod.splits sum.splits)

lemma create_event_success:
  assumes "get_calendar_service L w = (Inr service, w1)"
    and "req_json req = Inr (JObj d)"
    and "build_event (repr L) (JObj d) = Inr event"
    and "events_insert service ''primary'' event (store w1) = (Inr created, s')"
    and "py_getitem created ''id'' = Inr i"
  shows "status (fst (create_event L req w)) = 200"
proof -
  from assms(5) obtain al where c: "created = JObj al"
    by (cases created) simp_all
  show ?thesis
    using assms c
    by (simp add: create_event_def store_log_call created_body_def jsonify_def
             split: option.splits)
qed

text \<open>
  C5. For a create body that has both \<open>date\<close> and \<open>time\<close>, the event sent to \<open>insert\<close> (on
  calendar \<open>primary\<close>) has \<open>start = {dateTime: "<date>T<time>:00", timeZone:
  "America/New_York"}\<close>, and its \<open>end\<close> is built the same way from \<open>end_time\<close> when the body
  has one and from \<open>time\<close> otherwise, so that without \<open>end_time\<close> the end equals the start.
  For a body with \<open>date\<close> and no \<open>time\<close>, \<open>start\<close> and \<open>end\<close> are both \<open>{date: <date>}\<close>.
\<close>

theorem create_event_dates:
  assumes "route req = POST_events"
    and "headers req ''X-API-Key'' = Some (API_KEY w)"
    and "get_calendar_service L w = (Inr service, w1)"
    and "req_json req = Inr (JObj d)"
    and "map_of d ''date'' = Some dv"
  shows "\<exists>st en.
           calls (snd (dispatch L req w)) =
             calls w1 @ [EventsInsert ''primary''
               (JObj [(''summary'', field (JObj d) ''title'' (JStr ''New Event'')),
                      (''description'', field (JObj d) ''description'' (JStr [])),
                      (''location'', field (JObj d) ''location'' (JStr [])),
                      (''start'', st), (''end'', en)])]
           \<and> (\<forall>tv. map_of d ''time'' = Some tv \<longrightarrow>
                 st = JObj [(''dateTime'', JStr (py_str (repr L) dv @ ''T'' @ py_str (repr L) tv @ '':00'')),
                            (''timeZone'', JStr ''America/New_York'')]
                 \<and> (\<forall>et. map_of d ''end_time'' = Some et \<longrightarrow>
                       en = JObj [(''dateTime'', JStr (py_str (repr L) dv @ ''T'' @ py_str (repr L) et @ '':00'')),
                                  (''timeZone'', JStr ''America/New_York'')])
                 \<and> (map_of d ''end_time'' = None \<longrightarrow> en = st))
           \<and> (map_of d ''time'' = None \<longrightarrow>
                 st = JObj [(''date'', dv)] \<and> en = JObj [(''date'', dv)])"
proof -
  have disp: "dispatch L req w = create_event L req w"
    using assms(1,2) by (simp add: dispatch_with_key)
  show ?thesis
  proof (cases "map_of d ''time''")
    case None
    from create_event_calls [OF assms(3,4) build_event_all_day [OF assms(5) None]] None
    show ?thesis by (simp add: disp)
  next
    case (Some tv)
    from create_event_calls [OF assms(3,4) build_event_timed [OF assms(5) Some]] Some
    show ?thesis by (auto simp: disp)
  qed
qed

theorem create_event_dates_witness:
  "calls (snd (dispatch mem_lib
                 (mem_request POST_events []
                    (Inr (JObj [(''date'', JStr ''2025-01-10''), (''time'', JStr ''09:00'')])))
                 mem_world)) =
     [Build fresh_creds,
      EventsInsert ''primary''
        (JObj [(''summary'', JStr ''New Event''), (''description'', JStr []), (''location'', JStr []),
               (''start'', JObj [(''dateTime'', JStr ''2025-01-10T09:00:00''),
                                 (''timeZone'', JStr ''America/New_York'')]),
               (''end'', JObj [(''dateTime'', JStr ''2025-01-10T09:00:00''),
                               (''timeZone'', JStr ''America/New_York'')])])]"
proof -
  have g: "get_calendar_service mem_lib mem_world =
             (Inr mem_service, mem_world\<lparr>calls := [Build fresh_creds]\<rparr>)"
    by (simp add: get_calendar_service_def load_creds_def authorize_def mem_world_def
                  mem_lib_def fresh_creds_def log_call_def)
  from create_event_dates
         [of "mem_request POST_events []
                (Inr (JObj [(''date'', JStr ''2025-01-10''), (''time'', JStr ''09:00'')]))"
             mem_world mem_lib mem_service "mem_world\<lparr>calls := [Build fresh_creds]\<rparr>"
             "[(''date'', JStr ''2025-01-10''), (''time'', JStr ''09:00'')]" "JStr ''2025-01-10''", OF _ _ g]
  show ?thesis
    by (auto simp: mem_request_def mem_world_def field_def)
qed

subsection \<open>Default titles\<close>

text \<open>
  C10. When the event that \<open>delete_event\<close> fetched has no \<open>summary\<close> and the delete goes
  through, the message is \<open>Event 'Untitled Event' deleted successfully\<close>; the list and
  search mapping uses another default, \<open>No title\<close>. A create body with no \<open>title\<close> is
  accepted: the event sent to \<open>insert\<close> has the summary \<open>New Event\<close>, and the answer is
  status 200 once the insert has returned an event with an id.
\<close>

theorem default_titles:
  assumes "headers req ''X-API-Key'' = Some (API_KEY w)"
    and "get_calendar_service L w = (Inr service, w1)"
  shows "(\<forall>event_id ev u s'.
            route req = DELETE_event event_id
            \<and> events_get service ''primary'' event_id (store w1) = Inr (JObj ev)
            \<and> map_of ev ''summary'' = None
            \<and> events_delete service ''primary'' event_id (store w1) = (Inr u, s') \<longrightarrow>
              fst (dispatch L req w) =
                \<lparr>status = 200,
                   body = JObj [(''success'', JBool True),
                                (''message'', JStr ''Event 'Untitled Event' deleted successfully'')]\<rparr>)
       \<and> (\<forall>ev f. format_event (JObj ev) = Inr f \<and> map_of ev ''summary'' = None \<longrightarrow>
              field f ''title'' JNull = JStr ''No title'')
       \<and> (\<forall>d. route req = POST_events \<and> req_json req = Inr (JObj d) \<and> map_of d ''title'' = None \<longrightarrow>
            (\<exists>event. build_event (repr L) (JObj d) = Inr event
                \<and> field event ''summary'' JNull = JStr ''New Event''
                \<and> calls (snd (dispatch L req w)) = calls w1 @ [EventsInsert ''primary'' event]
                \<and> (\<forall>created s' i.
                      events_insert service ''primary'' event (store w1) = (Inr created, s')
                      \<and> py_getitem created ''id'' = Inr i \<longrightarrow>
                        status (fst (dispatch L req w)) = 200)))"
proof (intro conjI allI impI)
  fix event_id ev u s'
  assume a: "route req = DELETE_event event_id
            \<and> events_get service ''primary'' event_id (store w1) = Inr (JObj ev)
            \<and> map_of ev ''summary'' = None
            \<and> events_delete service ''primary'' event_id (store w1) = (Inr u, s')"
  then show "fst (dispatch L req w) =
                \<lparr>status = 200,
                   body = JObj [(''success'', JBool True),
                                (''message'', JStr ''Event 'Untitled Event' deleted successfully'')]\<rparr>"
    using assms
    by (simp add: dispatch_with_key delete_event_def store_log_call jsonify_def quote_def)
next
  fix ev f
  assume "format_event (JObj ev) = Inr f \<and> map_of ev ''summary'' = None"
  then show "field f ''title'' JNull = JStr ''No title''"
    by (auto simp: format_event_def field_def bindE_Inr_iff py_get_Inr_iff py_getitem_Inr_iff)
next
  fix d
  assume a: "route req = POST_events \<and> req_json req = Inr (JObj d) \<and> map_of d ''title'' = None"
  have disp: "dispatch L req w = create_event L req w"
    using assms(1) a by (simp add: dispatch_with_key)
  have "\<exists>al. build_event (repr L) (JObj d) = Inr (JObj al)
              \<and> map_of al ''summary'' = Some (JStr ''New Event'')"
  proof (cases "map_of d ''date''")
    case None
    from build_event_undated [OF None, of "repr L"] a show ?thesis by (simp add: field_def)
  next
    case (Some dv)
    show ?thesis
    proof (cases "map_of d ''time''")
      case None
      from build_event_all_day [OF Some None, of "repr L"] a show ?thesis by (simp add: field_def)
    next
      case (Some tv)
      from build_event_timed [OF \<open>map_of d ''date'' = Some dv\<close> Some, of "repr L"] a
      show ?thesis by (simp add: field_def)
    qed
  qed
  then obtain al where b: "build_event (repr L) (JObj d) = Inr (JObj al)"
    and s: "map_of al ''summary'' = Some (JStr ''New Event'')" by blast
  have c: "calls (snd (dispatch L req w)) = calls w1 @ [EventsInsert ''primary'' (JObj al)]"
    using create_event_calls [OF assms(2) _ b] a by (simp add: disp)
  have ok: "\<forall>created s' i.
              events_insert service ''primary'' (JObj al) (store w1) = (Inr created, s')
              \<and> py_getitem created ''id'' = Inr i \<longrightarrow>
                status (fst (dispatch L req w)) = 200"
  proof (intro allI impI)
    fix created s' i
    assume "events_insert service ''primary'' (JObj al) (store w1) = (Inr created, s')
              \<and> py_getitem created ''id'' = Inr i"
    with create_event_success [OF assms(2) _ b, of req created s' i] a
    show "status (fst (dispatch L req w)) = 200"
      by (simp add: disp)
  qed
  from b s c ok
  show "\<exists>event. build_event (repr L) (JObj d) = Inr event
                \<and> field event ''summary'' JNull = JStr ''New Event''
                \<and> calls (snd (dispatch L req w)) = calls w1 @ [EventsInsert ''primary'' event]
                \<and> (\<forall>created s' i.
                      events_insert service ''primary'' event (store w1) = (Inr created, s')
                      \<and> py_getitem created ''id'' = Inr i \<longrightarrow>
                        status (fst (dispatch L req w)) = 200)"
    by (intro exI [of _ "JObj al"]) (simp add: field_def)
qed

theorem default_titles_witness:
  "fst (dispatch mem_lib (mem_request (DELETE_event ''e2'') [] no_body) mem_world) =
     \<lparr>status = 200,
        body = JObj [(''success'', JBool True),
                     (''message'', JStr ''Event 'Untitled Event' deleted successfully'')]\<rparr>
   \<and> format_event holiday =
       Inr (JObj [(''id'', JStr ''e2''), (''title'', JStr ''No title''),
                  (''start'', JStr ''2025-01-20''), (''end'', JStr ''2025-01-21''),
                  (''description'', JStr []), (''location'', JStr [])])
   \<and> fst (dispatch mem_lib (mem_request POST_events [] (Inr (JObj [(''date'', JStr ''2025-01-20'')])))
              mem_world) =
       \<lparr>status = 200,
          body = JObj [(''success'', JBool True), (''event_id'', JStr ''ev2''),
                       (''event_link'', JNull),
                       (''message'', JStr ''Event 'None' created successfully'')]\<rparr>"
proof -
  have g: "get_calendar_service mem_lib mem_world =
             (Inr mem_service, mem_world\<lparr>calls := [Build fresh_creds]\<rparr>)"
    by (simp add: get_calendar_service_def load_creds_def authorize_def mem_world_def
                  mem_lib_def fresh_creds_def log_call_def)
  have k: "headers (mem_request (DELETE_event ''e2'') [] no_body) ''X-API-Key''
             = Some (API_KEY mem_world)"
    by (simp add: mem_request_def mem_world_def)
  have r: "route (mem_request (DELETE_event ''e2'') [] no_body) = DELETE_event ''e2''"
    by (simp add: mem_request_def)
  have e: "events_get mem_service ''primary'' ''e2'' (store (mem_world\<lparr>calls := [Build fresh_creds]\<rparr>))
             = Inr (JObj [(''id'', JStr ''e2''),
                          (''start'', JObj [(''date'', JStr ''2025-01-20'')]),
                          (''end'', JObj [(''date'', JStr ''2025-01-21'')])])"
    by (simp add: mem_service_def mem_world_def holiday_def)
  have x: "events_delete mem_service ''primary'' ''e2'' (store (mem_world\<lparr>calls := [Build fresh_creds]\<rparr>))
             = (Inr (), [(''e1'', standup)])"
    by (simp add: mem_service_def mem_world_def AList.delete_eq)
  from default_titles [OF k g] r e x
  have "fst (dispatch mem_lib (mem_request (DELETE_event ''e2'') [] no_body) mem_world) =
     \<lparr>status = 200,
        body = JObj [(''success'', JBool True),
                     (''message'', JStr ''Event 'Untitled Event' deleted successfully'')]\<rparr>"
    by (fastforce simp del: split_paired_All)
  moreover have "format_event holiday =
       Inr (JObj [(''id'', JStr ''e2''), (''title'', JStr ''No title''),
                  (''start'', JStr ''2025-01-20''), (''end'', JStr ''2025-01-21''),
                  (''description'', JStr []), (''location'', JStr [])])"
    by (simp add: format_event_def holiday_def)
  moreover have "fst (dispatch mem_lib
                   (mem_request POST_events [] (Inr (JObj [(''date'', JStr ''2025-01-20'')])))
                   mem_world) =
       \<lparr>status = 200,
          body = JObj [(''success'', JBool True), (''event_id'', JStr ''ev2''),
                       (''event_link'', JNull),
                       (''message'', JStr ''Event 'None' created successfully'')]\<rparr>"
    by (simp add: dispatch_def require_api_key_def create_event_def build_event_def both_in_def
                  created_body_def jsonify_def quote_def mem_request_def get_calendar_service_def
                  load_creds_def authorize_def log_call_def mem_lib_def fresh_creds_def
                  mem_world_def mem_service_def dec.simps digit_char_def Let_def)
  ultimately show ?thesis by simp
qed

subsection \<open>Updating an event\<close>

lemma overlay_dict:
  "overlay k k' (JObj d) (JObj ev) =
     Inr (JObj (case map_of d k of Some v \<Rightarrow> AList.update k' v ev | None \<Rightarrow> ev))"
  by (simp add: overlay_def split: option.splits)

lemma updated_fields_untimed:
  assumes "map_of d ''date'' = None \<or> map_of d ''time'' = None"
  shows "updated_fields R (JObj d) (JObj ev) =
           Inr (JObj ((case map_of d ''location'' of Some v \<Rightarrow> AList.update ''location'' v | None \<Rightarrow> id)
                     ((case map_of d ''description'' of Some v \<Rightarrow> AList.update ''description'' v | None \<Rightarrow> id)
                     ((case map_of d ''title'' of Some v \<Rightarrow> AList.update ''summary'' v | None \<Rightarrow> id) ev))))"
  using assms
  by (auto simp: updated_fields_def overlay_dict both_in_dict split: option.splits)

lemma updated_fields_timed:
  assumes "map_of d ''date'' = Some dv" and "map_of d ''time'' = Some tv"
  shows "updated_fields R (JObj d) (JObj ev) =
           Inr (JObj (AList.update ''end''
                        (JObj [(''dateTime'', JStr (py_str R dv @ ''T''
                                            @ py_str R (case map_of d ''end_time'' of
                                                          Some et \<Rightarrow> et | None \<Rightarrow> tv) @ '':00'')),
                               (''timeZone'', JStr ''America/New_York'')])
                     (AList.update ''start''
                        (JObj [(''dateTime'', JStr (py_str R dv @ ''T'' @ py_str R tv @ '':00'')),
                               (''timeZone'', JStr ''America/New_York'')])
                     ((case map_of d ''location'' of Some v \<Rightarrow> AList.update ''location'' v | None \<Rightarrow> id)
                     ((case map_of d ''description'' of Some v \<Rightarrow> AList.update ''description'' v | None \<Rightarrow> id)
                     ((case map_of d ''title'' of Some v \<Rightarrow> AList.update ''summary'' v | None \<Rightarrow> id) ev))))))"
  using assms
  by (auto simp: updated_fields_def overlay_dict both_in_dict timed_start_end_dict [OF assms]
           split: option.splits)

lemma update_event_calls:
  assumes "get_calendar_service L w = (Inr service, w1)"
    and "req_json req = Inr data"
    and "events_get service ''primary'' event_id (store w1) = Inr event"
    and "updated_fields (repr L) data event = Inr event'"
  shows "calls (snd (update_event L event_id req w)) =
           calls w1 @ [EventsGet ''primary'' event_id, EventsUpdate ''primary'' event_id event']"
  using assms
  by (auto simp: update_event_def calls_log_call store_log_call Let_def
           split: prod.splits sum.splits)

text \<open>
  C4. For a dict body and a fetched event that is a dict, \<open>update_event\<close> sends to
  \<open>update\<close> (after the \<open>get\<close>, on calendar \<open>primary\<close>) an event \<open>ev'\<close> that differs from the
  fetched \<open>ev\<close> only where the body says so: every key other than \<open>summary\<close>,
  \<open>description\<close>, \<open>location\<close>, \<open>start\<close> and \<open>end\<close> is as fetched; \<open>summary\<close>,
  \<open>description\<close> and \<open>location\<close> are the body's \<open>title\<close>, \<open>description\<close> and \<open>location\<close>
  when the body has them and as fetched otherwise; \<open>start\<close> and \<open>end\<close> are as fetched
  unless the body has both \<open>date\<close> and \<open>time\<close>, and are then built as in \<open>create_event\<close>.
  A body whose only key is \<open>location\<close> replaces the location and nothing else.
\<close>

theorem update_event_overlay:
  assumes "route req = PUT_event event_id"
    and "headers req ''X-API-Key'' = Some (API_KEY w)"
    and "get_calendar_service L w = (Inr service, w1)"
    and "req_json req = Inr (JObj d)"
    and "events_get service ''primary'' event_id (store w1) = Inr (JObj ev)"
  shows "\<exists>ev'.
           calls (snd (dispatch L req w)) =
             calls w1 @ [EventsGet ''primary'' event_id, EventsUpdate ''primary'' event_id (JObj ev')]
           \<and> (\<forall>k. k \<notin> {''summary'', ''description'', ''location'', ''start'', ''end''} \<longrightarrow>
                  map_of ev' k = map_of ev k)
           \<and> map_of ev' ''summary'' =
               (case map_of d ''title'' of Some v \<Rightarrow> Some v | None \<Rightarrow> map_of ev ''summary'')
           \<and> map_of ev' ''description'' =
               (case map_of d ''description'' of Some v \<Rightarrow> Some v | None \<Rightarrow> map_of ev ''description'')
           \<and> map_of ev' ''location'' =
               (case map_of d ''location'' of Some v \<Rightarrow> Some v | None \<Rightarrow> map_of ev ''location'')
           \<and> (map_of d ''date'' = None \<or> map_of d ''time'' = None \<longrightarrow>
                  map_of ev' ''start'' = map_of ev ''start'' \<and> map_of ev' ''end'' = map_of ev ''end'')
           \<and> (\<forall>dv tv. map_of d ''date'' = Some dv \<and> map_of d ''time'' = Some tv \<longrightarrow>
                  map_of ev' ''start'' =
                    Some (JObj [(''dateTime'', JStr (py_str (repr L) dv @ ''T'' @ py_str (repr L) tv @ '':00'')),
                                (''timeZone'', JStr ''America/New_York'')])
                  \<and> map_of ev' ''end'' =
                    Some (JObj [(''dateTime'', JStr (py_str (repr L) dv @ ''T''
                                   @ py_str (repr L) (case map_of d ''end_time'' of
                                                        Some et \<Rightarrow> et | None \<Rightarrow> tv) @ '':00'')),
                                (''timeZone'', JStr ''America/New_York'')]))
           \<and> (\<forall>v. d = [(''location'', v)] \<longrightarrow> ev' = AList.update ''location'' v ev)"
proof -
  have disp: "dispatch L req w = update_event L event_id req w"
    using assms(1,2) by (simp add: dispatch_with_key)
  show ?thesis
  proof (cases "map_of d ''date'' = None \<or> map_of d ''time'' = None")
    case True
    note u = updated_fields_untimed [OF True, of "repr L" ev]
    note c = update_event_calls [OF assms(3,4,5) u]
    show ?thesis
      apply (rule exI)
      apply (rule conjI)
       apply (simp only: disp)
       apply (rule c)
      using True
      apply (auto simp: update_conv' split: option.splits)
      done
  next
    case False
    then obtain dv tv where dt: "map_of d ''date'' = Some dv" "map_of d ''time'' = Some tv"
      by auto
    note u = updated_fields_timed [OF dt, of "repr L" ev]
    note c = update_event_calls [OF assms(3,4,5) u]
    show ?thesis
      apply (rule exI)
      apply (rule conjI)
       apply (simp only: disp)
       apply (rule c)
      using dt
      apply (auto simp: update_conv' split: option.splits)
      done
  qed
qed

theorem update_event_overlay_witness:
  "dispatch mem_lib
     (mem_request (PUT_event ''e1'') [] (Inr (JObj [(''location'', JStr ''Room 2'')]))) mem_world =
     (\<lparr>status = 200,
        body = JObj [(''success'', JBool True), (''message'', JStr ''Event updated successfully''),
                     (''event_link'', JNull)]\<rparr>,
      mem_world\<lparr>calls :=
                  [Build fresh_creds, EventsGet ''primary'' ''e1'',
                   EventsUpdate ''primary'' ''e1''
                     (JObj [(''id'', JStr ''e1''), (''summary'', JStr ''Standup''),
                            (''description'', JStr ''Daily''), (''location'', JStr ''Room 2''),
                            (''start'', JObj [(''dateTime'', JStr ''2025-01-10T09:00:00-05:00'')]),
                            (''end'', JObj [(''dateTime'', JStr ''2025-01-10T09:15:00-05:00'')])])],
                store :=
                  [(''e1'', JObj [(''id'', JStr ''e1''), (''summary'', JStr ''Standup''),
                            (''description'', JStr ''Daily''), (''location'', JStr ''Room 2''),
                            (''start'', JObj [(''dateTime'', JStr ''2025-01-10T09:00:00-05:00'')]),
                            (''end'', JObj [(''dateTime'', JStr ''2025-01-10T09:15:00-05:00'')])]),
                   (''e2'', holiday)]\<rparr>)"
proof -
  have g: "get_calendar_service mem_lib mem_world =
             (Inr mem_service, mem_world\<lparr>calls := [Build fresh_creds]\<rparr>)"
    by (simp add: get_calendar_service_def load_creds_def authorize_def mem_world_def
                  mem_lib_def fresh_creds_def log_call_def)
  have e: "events_get mem_service ''primary'' ''e1'' (store (mem_world\<lparr>calls := [Build fresh_creds]\<rparr>))
             = Inr (JObj [(''id'', JStr ''e1''), (''summary'', JStr ''Standup''),
                          (''description'', JStr ''Daily''), (''location'', JStr ''Room 1''),
                          (''start'', JObj [(''dateTime'', JStr ''2025-01-10T09:00:00-05:00'')]),
                          (''end'', JObj [(''dateTime'', JStr ''2025-01-10T09:15:00-05:00'')])])"
    by (simp add: mem_service_def mem_world_def standup_def)
  from update_event_overlay
         [of "mem_request (PUT_event ''e1'') [] (Inr (JObj [(''location'', JStr ''Room 2'')]))"
             "''e1''" mem_world mem_lib mem_service "mem_world\<lparr>calls := [Build fresh_creds]\<rparr>"
             "[(''location'', JStr ''Room 2'')]", OF _ _ g _ e]
  have c: "calls (snd (dispatch mem_lib
             (mem_request (PUT_event ''e1'') [] (Inr (JObj [(''location'', JStr ''Room 2'')])))
             mem_world)) =
          [Build fresh_creds, EventsGet ''primary'' ''e1'',
           EventsUpdate ''primary'' ''e1''
             (JObj [(''id'', JStr ''e1''), (''summary'', JStr ''Standup''),
                    (''description'', JStr ''Daily''), (''location'', JStr ''Room 2''),
                    (''start'', JObj [(''dateTime'', JStr ''2025-01-10T09:00:00-05:00'')]),
                    (''end'', JObj [(''dateTime'', JStr ''2025-01-10T09:15:00-05:00'')])])]"
    by (auto simp: mem_request_def mem_world_def)
  have "dispatch mem_lib
     (mem_request (PUT_event ''e1'') [] (Inr (JObj [(''location'', JStr ''Room 2'')]))) mem_world =
     (\<lparr>status = 200,
        body = JObj [(''success'', JBool True), (''message'', JStr ''Event updated successfully''),
                     (''event_link'', JNull)]\<rparr>,
      mem_world\<lparr>calls := calls (snd (dispatch mem_lib
             (mem_request (PUT_event ''e1'') [] (Inr (JObj [(''location'', JStr ''Room 2'')])))
             mem_world)),
                store :=
                  [(''e1'', JObj [(''id'', JStr ''e1''), (''summary'', JStr ''Standup''),
                            (''description'', JStr ''Daily''), (''location'', JStr ''Room 2''),
                            (''start'', JObj [(''dateTime'', JStr ''2025-01-10T09:00:00-05:00'')]),
                            (''end'', JObj [(''dateTime'', JStr ''2025-01-10T09:15:00-05:00'')])]),
                   (''e2'', holiday)]\<rparr>)"
    by (simp add: dispatch_def require_api_key_def update_event_def updated_fields_def overlay_def
                  both_in_def jsonify_def mem_request_def get_calendar_service_def
                  load_creds_def authorize_def log_call_def mem_lib_def fresh_creds_def
                  mem_world_def mem_service_def standup_def Let_def)
  with c show ?thesis by simp
qed

subsection \<open>The simplified event\<close>

lemma format_event_provider:
  assumes "provider_event e"
  shows "format_event e = Inr (spec_simplified e)"
proof -
  from assms obtain al where e: "e = JObj al"
    by (cases e) (simp_all add: provider_event_def is_obj_def)
  from assms e obtain i where i: "map_of al ''id'' = Some i"
    by (auto simp: provider_event_def has_field_def)
  from assms e obtain st where st: "map_of al ''start'' = Some (JObj st)"
    by (auto simp: provider_event_def is_obj_def field_def split: option.splits json.splits)
  from assms e obtain en where en: "map_of al ''end'' = Some (JObj en)"
    by (auto simp: provider_event_def is_obj_def field_def split: option.splits json.splits)
  show ?thesis
    using e i st en
    by (simp add: format_event_def spec_simplified_def spec_time_def field_def has_field_def
             split: option.splits)
qed

lemma format_events_provider:
  "list_all provider_event evs \<Longrightarrow> format_events evs = Inr (map spec_simplified evs)"
  by (induction evs) (simp_all add: format_event_provider)

lemma spec_simplified_non_null:
  assumes "provider_event e"
  shows "field (spec_simplified e) ''id'' JNull = field e ''id'' JNull
         \<and> field (spec_simplified e) ''id'' JNull \<noteq> JNull
         \<and> field (spec_simplified e) ''title'' JNull \<noteq> JNull"
  using assms
  by (cases e)
     (auto simp: provider_event_def spec_simplified_def field_def has_field_def is_obj_def
           split: option.splits)

text \<open>
  C7. When the list request returns items that are events as the provider's contract
  gives them, both \<open>get_events\<close> and \<open>search_events\<close> answer with the simplified events of
  the specification, in order: the id is the provider's and is not null; the title is the
  summary, or \<open>No title\<close> when the event has none, and is not null; start and end are the
  \<open>dateTime\<close> when present and the \<open>date\<close> otherwise.
\<close>

theorem provider_events_simplified:
  assumes "events_list service r s = Inr (JObj res)"
    and "map_of res ''items'' = Some (JList evs)"
    and "list_all provider_event evs"
  shows "list_and_format service r s = Inr (map spec_simplified evs)
         \<and> (\<forall>e \<in> set evs.
               field (spec_simplified e) ''id'' JNull = field e ''id'' JNull
               \<and> field (spec_simplified e) ''id'' JNull \<noteq> JNull
               \<and> field (spec_simplified e) ''title'' JNull \<noteq> JNull
               \<and> field (spec_simplified e) ''title'' JNull =
                   (if has_field e ''summary'' then field e ''summary'' JNull else JStr ''No title'')
               \<and> field (spec_simplified e) ''start'' JNull =
                   (if has_field (field e ''start'' JNull) ''dateTime''
                    then field (field e ''start'' JNull) ''dateTime'' JNull
                    else field (field e ''start'' JNull) ''date'' JNull)
               \<and> field (spec_simplified e) ''end'' JNull =
                   (if has_field (field e ''end'' JNull) ''dateTime''
                    then field (field e ''end'' JNull) ''dateTime'' JNull
                    else field (field e ''end'' JNull) ''date'' JNull))
         \<and> (\<forall>L req w w1.
               get_calendar_service L w = (Inr service, w1) \<and> store w1 = s
               \<and> list_request req (now w1) = Inr r \<longrightarrow>
                 fst (get_events L req w) =
                   \<lparr>status = 200,
                      body = JObj [(''success'', JBool True),
                                   (''events'', JList (map spec_simplified evs)),
                                   (''count'', JNum (dec (length evs)))]\<rparr>)
         \<and> (\<forall>L req w w1 query.
               get_calendar_service L w = (Inr service, w1) \<and> store w1 = s
               \<and> args req ''query'' = Some query \<and> query \<noteq> []
               \<and> r = \<lparr>calendarId = ''primary'', timeMin = None, timeMax = None, maxResults = 25,
                       singleEvents = True, orderBy = ''startTime'', q = Some query\<rparr> \<longrightarrow>
                 fst (search_events L req w) =
                   \<lparr>status = 200,
                      body = JObj [(''success'', JBool True),
                                   (''events'', JList (map spec_simplified evs)),
                                   (''count'', JNum (dec (length evs))),
                                   (''query'', JStr query)]\<rparr>)"
proof -
  have lf: "list_and_format service r s = Inr (map spec_simplified evs)"
    using assms by (simp add: list_and_format_def format_events_provider)
  have each: "\<forall>e \<in> set evs.
               field (spec_simplified e) ''id'' JNull = field e ''id'' JNull
               \<and> field (spec_simplified e) ''id'' JNull \<noteq> JNull
               \<and> field (spec_simplified e) ''title'' JNull \<noteq> JNull
               \<and> field (spec_simplified e) ''title'' JNull =
                   (if has_field e ''summary'' then field e ''summary'' JNull else JStr ''No title'')
               \<and> field (spec_simplified e) ''start'' JNull =
                   (if has_field (field e ''start'' JNull) ''dateTime''
                    then field (field e ''start'' JNull) ''dateTime'' JNull
                    else field (field e ''start'' JNull) ''date'' JNull)
               \<and> field (spec_simplified e) ''end'' JNull =
                   (if has_field (field e ''end'' JNull) ''dateTime''
                    then field (field e ''end'' JNull) ''dateTime'' JNull
                    else field (field e ''end'' JNull) ''date'' JNull)"
  proof
    fix e assume "e \<in> set evs"
    with assms(3) have p: "provider_event e" by (simp add: list_all_iff)
    have "field (spec_simplified e) ''title'' JNull =
            (if has_field e ''summary'' then field e ''summary'' JNull else JStr ''No title'')"
      "field (spec_simplified e) ''start'' JNull =
                   (if has_field (field e ''start'' JNull) ''dateTime''
                    then field (field e ''start'' JNull) ''dateTime'' JNull
                    else field (field e ''start'' JNull) ''date'' JNull)"
      "field (spec_simplified e) ''end'' JNull =
                   (if has_field (field e ''end'' JNull) ''dateTime''
                    then field (field e ''end'' JNull) ''dateTime'' JNull
                    else field (field e ''end'' JNull) ''date'' JNull)"
      by (simp_all add: spec_simplified_def spec_time_def field_def)
    with spec_simplified_non_null [OF p]
    show "field (spec_simplified e) ''id'' JNull = field e ''id'' JNull
               \<and> field (spec_simplified e) ''id'' JNull \<noteq> JNull
               \<and> field (spec_simplified e) ''title'' JNull \<noteq> JNull
               \<and> field (spec_simplified e) ''title'' JNull =
                   (if has_field e ''summary'' then field e ''summary'' JNull else JStr ''No title'')
               \<and> field (spec_simplified e) ''start'' JNull =
                   (if has_field (field e ''start'' JNull) ''dateTime''
                    then field (field e ''start'' JNull) ''dateTime'' JNull
                    else field (field e ''start'' JNull) ''date'' JNull)
               \<and> field (spec_simplified e) ''end'' JNull =
                   (if has_field (field e ''end'' JNull) ''dateTime''
                    then field (field e ''end'' JNull) ''dateTime'' JNull
                    else field (field e ''end'' JNull) ''date'' JNull)"
      by blast
  qed
  have ge: "\<forall>L req w w1.
               get_calendar_service L w = (Inr service, w1) \<and> store w1 = s
               \<and> list_request req (now w1) = Inr r \<longrightarrow>
                 fst (get_events L req w) =
                   \<lparr>status = 200,
                      body = JObj [(''success'', JBool True),
                                   (''events'', JList (map spec_simplified evs)),
                                   (''count'', JNum (dec (length evs)))]\<rparr>"
    using lf by (auto simp: get_events_def store_log_call jsonify_def)
  have se: "\<forall>L req w w1 query.
               get_calendar_service L w = (Inr service, w1) \<and> store w1 = s
               \<and> args req ''query'' = Some query \<and> query \<noteq> []
               \<and> r = \<lparr>calendarId = ''primary'', timeMin = None, timeMax = None, maxResults = 25,
                       singleEvents = True, orderBy = ''startTime'', q = Some query\<rparr> \<longrightarrow>
                 fst (search_events L req w) =
                   \<lparr>status = 200,
                      body = JObj [(''success'', JBool True),
                                   (''events'', JList (map spec_simplified evs)),
                                   (''count'', JNum (dec (length evs))),
                                   (''query'', JStr query)]\<rparr>"
    using lf by (auto simp: search_events_def args_get_def store_log_call jsonify_def)
  from lf each ge se show ?thesis by blast
qed

theorem provider_events_simplified_witness:
  "list_all provider_event [standup, holiday]
   \<and> list_and_format mem_service
       \<lparr>calendarId = ''primary'', timeMin = None, timeMax = None, maxResults = 25,
          singleEvents = True, orderBy = ''startTime'', q = Some ''a''\<rparr>
       [(''e1'', standup), (''e2'', holiday)] =
     Inr [JObj [(''id'', JStr ''e1''), (''title'', JStr ''Standup''),
                (''start'', JStr ''2025-01-10T09:00:00-05:00''),
                (''end'', JStr ''2025-01-10T09:15:00-05:00''),
                (''description'', JStr ''Daily''), (''location'', JStr ''Room 1'')],
          JObj [(''id'', JStr ''e2''), (''title'', JStr ''No title''),
                (''start'', JStr ''2025-01-20''), (''end'', JStr ''2025-01-21''),
                (''description'', JStr []), (''location'', JStr [])]]"
proof -
  have p: "list_all provider_event [standup, holiday]"
    by (simp add: provider_event_def is_obj_def has_field_def field_def standup_def holiday_def)
  have l: "events_list mem_service
       \<lparr>calendarId = ''primary'', timeMin = None, timeMax = None, maxResults = 25,
          singleEvents = True, orderBy = ''startTime'', q = Some ''a''\<rparr>
       [(''e1'', standup), (''e2'', holiday)] = Inr (JObj [(''items'', JList [standup, holiday])])"
    by (simp add: mem_service_def)
  from provider_events_simplified [OF l _ p] p show ?thesis
    by (simp add: spec_simplified_def spec_time_def field_def has_field_def standup_def holiday_def)
qed

subsection \<open>The window of the list request\<close>

text \<open>The day ordinal of the date that \<open>ord2ymd\<close> gives is the ordinal it was given:
  adding days to a date adds that many to its ordinal.\<close>

lemma nth_tables:
  "DAYS_BEFORE_MONTH ! 1 = 0" "DAYS_BEFORE_MONTH ! 2 = 31" "DAYS_BEFORE_MONTH ! 3 = 59"
  "DAYS_BEFORE_MONTH ! 4 = 90" "DAYS_BEFORE_MONTH ! 5 = 120" "DAYS_BEFORE_MONTH ! 6 = 151"
  "DAYS_BEFORE_MONTH ! 7 = 181" "DAYS_BEFORE_MONTH ! 8 = 212" "DAYS_BEFORE_MONTH ! 9 = 243"
  "DAYS_BEFORE_MONTH ! 10 = 273" "DAYS_BEFORE_MONTH ! 11 = 304" "DAYS_BEFORE_MONTH ! 12 = 334"
  "DAYS_IN_MONTH ! 1 = 31" "DAYS_IN_MONTH ! 2 = 28" "DAYS_IN_MONTH ! 3 = 31"
  "DAYS_IN_MONTH ! 4 = 30" "DAYS_IN_MONTH ! 5 = 31" "DAYS_IN_MONTH ! 6 = 30"
  "DAYS_IN_MONTH ! 7 = 31" "DAYS_IN_MONTH ! 8 = 31" "DAYS_IN_MONTH ! 9 = 30"
  "DAYS_IN_MONTH ! 10 = 31" "DAYS_IN_MONTH ! 11 = 30" "DAYS_IN_MONTH ! 12 = 31"
  "DAYS_BEFORE_MONTH ! Suc 0 = 0" "DAYS_IN_MONTH ! Suc 0 = 31"
  "DAYS_BEFORE_MONTH ! 0 = -1" "DAYS_IN_MONTH ! 0 = -1"
  by (simp_all add: DAYS_BEFORE_MONTH_def DAYS_IN_MONTH_def)

lemma div_parts:
  fixes x k n :: int
  assumes "0 \<le> x" and "x < n"
  shows "(x + n * k) div n = k"
  using assms by simp

lemma mod_parts_zero:
  fixes x k n :: int
  assumes "1 \<le> x" and "x \<le> n"
  shows "(x + n * k) mod n = 0 \<longleftrightarrow> x = n"
proof (cases "x = n")
  case True
  then show ?thesis by simp
next
  case False
  with assms have "0 \<le> x" "x < n" by simp_all
  then have "(x + n * k) mod n = x" by simp
  with assms False show ?thesis by simp
qed

lemma leap_from_parts:
  assumes "0 \<le> b" "b \<le> 3" "0 \<le> c" "c \<le> 24" "0 \<le> e" "e \<le> 3"
  shows "is_leap (a * 400 + 1 + b * 100 + c * 4 + e) \<longleftrightarrow> (e = 3 \<and> (c \<noteq> 24 \<or> b = 3))"
proof -
  define y where "y = a * 400 + 1 + b * 100 + c * 4 + e"
  have y4: "y = (e + 1) + 4 * (100 * a + 25 * b + c)" unfolding y_def by algebra
  have y100: "y = (4 * c + e + 1) + 100 * (4 * a + b)" unfolding y_def by algebra
  have y400: "y = (100 * b + 4 * c + e + 1) + 400 * a" unfolding y_def by algebra
  have "((e + 1) + 4 * (100 * a + 25 * b + c)) mod 4 = 0 \<longleftrightarrow> e + 1 = 4"
    using assms by (intro mod_parts_zero) linarith+
  then have m4: "y mod 4 = 0 \<longleftrightarrow> e = 3" unfolding y4 [symmetric] by linarith
  have "((4 * c + e + 1) + 100 * (4 * a + b)) mod 100 = 0 \<longleftrightarrow> 4 * c + e + 1 = 100"
    using assms by (intro mod_parts_zero) linarith+
  then have m100: "y mod 100 = 0 \<longleftrightarrow> 4 * c + e = 99" unfolding y100 [symmetric] by linarith
  have "((100 * b + 4 * c + e + 1) + 400 * a) mod 400 = 0 \<longleftrightarrow> 100 * b + 4 * c + e + 1 = 400"
    using assms by (intro mod_parts_zero) linarith+
  then have m400: "y mod 400 = 0 \<longleftrightarrow> 100 * b + 4 * c + e = 399" unfolding y400 [symmetric] by linarith
  have "is_leap y \<longleftrightarrow> (e = 3 \<and> (c \<noteq> 24 \<or> b = 3))"
    unfolding is_leap_def m4 m100 m400 using assms by auto
  then show ?thesis unfolding y_def .
qed


lemma days_before_year_parts:
  assumes "0 \<le> b" "b \<le> 3" "0 \<le> c" "c \<le> 24" "0 \<le> e" "e \<le> 3"
  shows "days_before_year (a * 400 + 1 + b * 100 + c * 4 + e) =
           146097 * a + 36524 * b + 1461 * c + 365 * e"
proof -
  define Y where "Y = a * 400 + 1 + b * 100 + c * 4 + e - 1"
  have y4: "Y = e + 4 * (100 * a + 25 * b + c)" unfolding Y_def by algebra
  have y100: "Y = (4 * c + e) + 100 * (4 * a + b)" unfolding Y_def by algebra
  have y400: "Y = (100 * b + 4 * c + e) + 400 * a" unfolding Y_def by algebra
  have "(e + 4 * (100 * a + 25 * b + c)) div 4 = 100 * a + 25 * b + c"
    using assms by (intro div_parts) linarith+
  then have d4: "Y div 4 = 100 * a + 25 * b + c" unfolding y4 [symmetric] .
  have "((4 * c + e) + 100 * (4 * a + b)) div 100 = 4 * a + b"
    using assms by (intro div_parts) linarith+
  then have d100: "Y div 100 = 4 * a + b" unfolding y100 [symmetric] .
  have "((100 * b + 4 * c + e) + 400 * a) div 400 = a"
    using assms by (intro div_parts) linarith+
  then have d400: "Y div 400 = a" unfolding y400 [symmetric] .
  have "Y * 365 + Y div 4 - Y div 100 + Y div 400 =
          146097 * a + 36524 * b + 1461 * c + 365 * e"
    unfolding d4 d100 d400 unfolding Y_def by algebra
  then show ?thesis unfolding days_before_year_def Y_def .
qed

lemma month_range:
  fixes m :: int
  assumes "1 \<le> m" and "m \<le> 12"
  shows "m = 1 \<or> m = 2 \<or> m = 3 \<or> m = 4 \<or> m = 5 \<or> m = 6 \<or> m = 7 \<or> m = 8
    \<or> m = 9 \<or> m = 10 \<or> m = 11 \<or> m = 12"
  using assms by presburger

lemma month_part:
  assumes "0 \<le> r" and "r < 365" and "is_leap y = lp"
  shows "(case (let m = (r + 50) div 32;
                    preceding = DAYS_BEFORE_MONTH ! nat m + (if m > 2 \<and> lp then 1 else 0)
                in if preceding > r
                   then (y, m - 1,
                         r - (preceding - (DAYS_IN_MONTH ! nat (m - 1)
                                           + (if m - 1 = 2 \<and> lp then 1 else 0))) + 1)
                   else (y, m, r - preceding + 1))
          of (y', m', d') \<Rightarrow> ymd2ord y' m' d')
         = days_before_year y + r + 1"
proof -
  have "1 \<le> (r + 50) div 32" "(r + 50) div 32 \<le> 12" using assms by simp_all
  then have "(r + 50) div 32 = 1 \<or> (r + 50) div 32 = 2 \<or> (r + 50) div 32 = 3
    \<or> (r + 50) div 32 = 4 \<or> (r + 50) div 32 = 5 \<or> (r + 50) div 32 = 6
    \<or> (r + 50) div 32 = 7 \<or> (r + 50) div 32 = 8 \<or> (r + 50) div 32 = 9
    \<or> (r + 50) div 32 = 10 \<or> (r + 50) div 32 = 11 \<or> (r + 50) div 32 = 12"
    by (rule month_range)
  then show ?thesis
    using assms(1,3)
    by (elim disjE)
       (simp_all add: Let_def nth_tables ymd2ord_def days_before_month_def)
qed

lemma ymd2ord_ord2ymd:
  "(case ord2ymd n of (y, m, d) \<Rightarrow> ymd2ord y m d) = n"
proof -
  define N where "N = n - 1"
  define a where "a = N div 146097"
  define r0 where "r0 = N mod 146097"
  define b where "b = r0 div 36524"
  define r1 where "r1 = r0 mod 36524"
  define c where "c = r1 div 1461"
  define r2 where "r2 = r1 mod 1461"
  define e where "e = r2 div 365"
  define r3 where "r3 = r2 mod 365"
  define y where "y = a * 400 + 1 + b * 100 + c * 4 + e"
  have N: "N = 146097 * a + r0" "0 \<le> r0" "r0 < 146097"
    by (simp_all add: a_def r0_def)
  have R0: "r0 = 36524 * b + r1" "0 \<le> r1" "r1 < 36524"
    by (simp_all add: b_def r1_def)
  have R1: "r1 = 1461 * c + r2" "0 \<le> r2" "r2 < 1461"
    by (simp_all add: c_def r2_def)
  have R2: "r2 = 365 * e + r3" "0 \<le> r3" "r3 < 365"
    by (simp_all add: e_def r3_def)
  have bb: "0 \<le> b" "b \<le> 4" using N R0 by linarith+
  have cb: "0 \<le> c" "c \<le> 24" using R0 R1 by linarith+
  have eb: "0 \<le> e" "e \<le> 4" using R1 R2 by linarith+
  have split: "ord2ymd n =
      (if e = 4 \<or> b = 4 then (y - 1, 12, 31)
       else (let m = (r3 + 50) div 32;
                 preceding = DAYS_BEFORE_MONTH ! nat m
                             + (if m > 2 \<and> (e = 3 \<and> (c \<noteq> 24 \<or> b = 3)) then 1 else 0)
             in if preceding > r3
                then (y, m - 1,
                      r3 - (preceding - (DAYS_IN_MONTH ! nat (m - 1)
                                         + (if m - 1 = 2 \<and> (e = 3 \<and> (c \<noteq> 24 \<or> b = 3)) then 1 else 0))) + 1)
                else (y, m, r3 - preceding + 1)))"
    unfolding ord2ymd_def y_def r3_def e_def r2_def c_def r1_def b_def r0_def a_def N_def Let_def
    by (rule refl)
  have n: "n = 146097 * a + 36524 * b + 1461 * c + 365 * e + r3 + 1"
    using N R0 R1 R2 by (simp add: N_def)
  show ?thesis
  proof (cases "b = 4")
    case True
    with N R0 have "r1 = 0" by linarith
    with R1 cb have "c = 0" "r2 = 0" by linarith+
    with R2 eb have "e = 0" "r3 = 0" by linarith+
    have y1: "y - 1 = a * 400 + 1 + 3 * 100 + 24 * 4 + 3"
      using True \<open>c = 0\<close> \<open>e = 0\<close> by (simp add: y_def)
    have "ymd2ord (y - 1) 12 31 = n"
      unfolding y1 ymd2ord_def days_before_month_def
      using days_before_year_parts [of 3 24 3 a] leap_from_parts [of 3 24 3 a]
            True \<open>c = 0\<close> \<open>e = 0\<close> \<open>r3 = 0\<close> n
      by (simp add: nth_tables)
    with True show ?thesis by (simp add: split)
  next
    case False
    with bb have b3: "b \<le> 3" by linarith
    show ?thesis
    proof (cases "e = 4")
      case True
      with R1 R2 have "r3 = 0" by linarith
      from True R1 R2 R0 have c23: "c \<le> 23" by linarith
      have y1: "y - 1 = a * 400 + 1 + b * 100 + c * 4 + 3"
        using True by (simp add: y_def)
      have "ymd2ord (y - 1) 12 31 = n"
        unfolding y1 ymd2ord_def days_before_month_def
        using days_before_year_parts [of b c 3 a] leap_from_parts [of b c 3 a]
              bb b3 cb c23 True \<open>r3 = 0\<close> n
        by (simp add: nth_tables)
      with True show ?thesis by (simp add: split)
    next
      case e4: False
      with eb have e3: "e \<le> 3" by linarith
      have lp: "is_leap y = (e = 3 \<and> (c \<noteq> 24 \<or> b = 3))"
        unfolding y_def using bb b3 cb eb e3 by (intro leap_from_parts)
      have dby: "days_before_year y = 146097 * a + 36524 * b + 1461 * c + 365 * e"
        unfolding y_def using bb b3 cb eb e3 by (intro days_before_year_parts)
      from e4 False have nc: "\<not> (e = 4 \<or> b = 4)" by simp
      have "(case ord2ymd n of (y, m, d) \<Rightarrow> ymd2ord y m d) = days_before_year y + r3 + 1"
        unfolding split if_not_P [OF nc] by (rule month_part [OF R2(2,3) lp])
      with dby n show ?thesis by linarith
    qed
  qed
qed

lemma add_days_ordinal:
  assumes "add_days dt n = Inr dt'"
  shows "toordinal dt' = toordinal dt + n
         \<and> hour dt' = hour dt \<and> minute dt' = minute dt \<and> second dt' = second dt"
proof -
  obtain y m d where o: "ord2ymd (toordinal dt + n) = (y, m, d)"
    by (cases "ord2ymd (toordinal dt + n)")
  with ymd2ord_ord2ymd [of "toordinal dt + n"] have "ymd2ord y m d = toordinal dt + n"
    by simp
  with assms o show ?thesis
    by (auto simp: add_days_def Let_def toordinal_def split: if_splits)
qed

lemma strptime_Ymd_midnight:
  assumes "strptime_Ymd s = Inr dt"
  shows "hour dt = 0 \<and> minute dt = 0 \<and> second dt = 0"
  using assms
  by (auto simp: strptime_Ymd_def split: option.splits list.splits if_splits)


text \<open>Parsing the \<open>%Y-%m-%d\<close> text of a date gives the date back, at midnight.\<close>

lemma digit_range:
  fixes k :: nat
  assumes "k < 10"
  shows "k = 0 \<or> k = 1 \<or> k = 2 \<or> k = 3 \<or> k = 4 \<or> k = 5 \<or> k = 6 \<or> k = 7 \<or> k = 8 \<or> k = 9"
  using assms by presburger

lemma digit_char:
  assumes "k < 10"
  shows "is_digit (digit_char k)" and "digit_val (digit_char k) = int k"
    and "digit_char k = CHR ''0'' \<longleftrightarrow> k = 0"
    and "digit_char k = CHR ''1'' \<longleftrightarrow> k = 1"
    and "digit_char k = CHR ''2'' \<longleftrightarrow> k = 2"
    and "digit_char k = CHR ''3'' \<longleftrightarrow> k = 3"
    and "digit_char k \<noteq> CHR '' ''"
  using digit_range [OF assms]
  by (auto simp: is_digit_def digit_val_def digit_char_def)

lemma replicate_small:
  "replicate 1 c = [c]" "replicate 2 c = [c, c]" "replicate 3 c = [c, c, c]"
  by (simp_all add: numeral_2_eq_2 numeral_3_eq_3)

lemma digit_char_0: "digit_char 0 = CHR ''0''"
  by (simp add: digit_char_def)

lemma dec_2:
  assumes "n < 100"
  shows "replicate (2 - length (dec n)) CHR ''0'' @ dec n =
           [digit_char (n div 10), digit_char (n mod 10)]"
proof (cases "n < 10")
  case True
  then show ?thesis by (simp add: dec.simps [of n] replicate_small digit_char_0)
next
  case False
  with assms have "n div 10 < 10" by simp
  with False show ?thesis by (simp add: dec.simps [of n] dec.simps [of "n div 10"])
qed

lemma dec_4:
  assumes "n < 10000"
  shows "replicate (4 - length (dec n)) CHR ''0'' @ dec n =
           [digit_char (n div 1000), digit_char (n div 100 mod 10),
            digit_char (n div 10 mod 10), digit_char (n mod 10)]"
proof -
  have d: "n div 10 div 10 = n div 100" "n div 100 div 10 = n div 1000"
    by (simp_all add: div_mult2_eq)
  consider "n < 10" | "10 \<le> n" "n < 100" | "100 \<le> n" "n < 1000" | "1000 \<le> n" "n < 10000"
    using assms by linarith
  then show ?thesis
  proof cases
    case 1
    then show ?thesis by (simp add: dec.simps [of n] replicate_small digit_char_0)
  next
    case 2
    then have "n div 10 < 10" "n div 100 = 0" "n div 1000 = 0" by simp_all
    with 2 show ?thesis
      by (simp add: dec.simps [of n] dec.simps [of "n div 10"] replicate_small digit_char_0)
  next
    case 3
    then have a: "\<not> n div 10 < 10" "n div 100 < 10" "n div 1000 = 0" by simp_all
    from 3 a show ?thesis
      by (simp add: dec.simps [of n] dec.simps [of "n div 10"] dec.simps [of "n div 100"]
                    d replicate_small digit_char_0)
  next
    case 4
    then have a: "\<not> n div 10 < 10" "\<not> n div 100 < 10" "n div 1000 < 10"
      by simp_all
    from 4 a show ?thesis
      by (simp add: dec.simps [of n] dec.simps [of "n div 10"] dec.simps [of "n div 100"]
                    dec.simps [of "n div 1000"] d)
  qed
qed

lemma zpad_2:
  assumes "0 \<le> i" and "i < 100"
  shows "zpad 2 i = [digit_char (nat i div 10), digit_char (nat i mod 10)]"
  using assms dec_2 [of "nat i"] by (simp add: zpad_def Let_def)

lemma zpad_4:
  assumes "0 \<le> i" and "i < 10000"
  shows "zpad 4 i = [digit_char (nat i div 1000), digit_char (nat i div 100 mod 10),
                     digit_char (nat i div 10 mod 10), digit_char (nat i mod 10)]"
  using assms dec_4 [of "nat i"] by (simp add: zpad_def Let_def)

lemma decimal_4:
  fixes n :: nat
  shows "1000 * (n div 1000) + 100 * (n div 100 mod 10) + 10 * (n div 10 mod 10) + n mod 10 = n"
proof -
  have e1: "n div 100 = n div 10 div 10" and e2: "n div 1000 = n div 100 div 10"
    by (simp_all add: div_mult2_eq)
  have a: "n = 10 * (n div 10) + n mod 10" by simp
  have b: "n div 10 = 10 * (n div 100) + n div 10 mod 10" unfolding e1 by simp
  have c: "n div 100 = 10 * (n div 1000) + n div 100 mod 10" unfolding e2 by simp
  from a b c show ?thesis by linarith
qed

lemma parse_Y_zpad:
  assumes "1 \<le> y" and "y \<le> 9999"
  shows "parse_Y (zpad 4 y @ r) = Some (y, r)"
proof -
  define n where "n = nat y"
  have n: "n < 10000" "y = int n" using assms by (simp_all add: n_def)
  have lt: "n div 1000 < 10" "n div 100 mod 10 < 10" "n div 10 mod 10 < 10" "n mod 10 < 10"
    using n(1) by simp_all
  have "int (1000 * (n div 1000) + 100 * (n div 100 mod 10) + 10 * (n div 10 mod 10) + n mod 10)
          = int n"
    by (simp only: decimal_4)
  then have v: "1000 * int (n div 1000) + 100 * int (n div 100 mod 10)
                  + 10 * int (n div 10 mod 10) + int (n mod 10) = int n"
    by simp
  have z: "zpad 4 y = [digit_char (n div 1000), digit_char (n div 100 mod 10),
                       digit_char (n div 10 mod 10), digit_char (n mod 10)]"
    using zpad_4 [of y] assms by (simp add: n_def)
  show ?thesis
    unfolding z using lt v n(2) by (simp add: digit_char)
qed

lemma day_range:
  fixes d :: int
  assumes "1 \<le> d" and "d \<le> 31"
  shows "d = 1 \<or> d = 2 \<or> d = 3 \<or> d = 4 \<or> d = 5 \<or> d = 6 \<or> d = 7 \<or> d = 8 \<or> d = 9 \<or> d = 10
    \<or> d = 11 \<or> d = 12 \<or> d = 13 \<or> d = 14 \<or> d = 15 \<or> d = 16 \<or> d = 17 \<or> d = 18 \<or> d = 19
    \<or> d = 20 \<or> d = 21 \<or> d = 22 \<or> d = 23 \<or> d = 24 \<or> d = 25 \<or> d = 26 \<or> d = 27 \<or> d = 28
    \<or> d = 29 \<or> d = 30 \<or> d = 31"
  using assms by presburger

lemma parse_m_zpad:
  assumes "1 \<le> m" and "m \<le> 12"
  shows "parse_m (zpad 2 m @ r) = Some (m, r)"
  using month_range [OF assms]
  by (elim disjE) (simp_all add: zpad_2 digit_char_def is_digit_def digit_val_def)

lemma parse_d_zpad:
  assumes "1 \<le> d" and "d \<le> 31"
  shows "parse_d (zpad 2 d @ r) = Some (d, r)"
  using day_range [OF assms]
  by (elim disjE) (simp_all add: zpad_2 digit_char_def is_digit_def digit_val_def)

lemma days_in_month_le:
  assumes "1 \<le> m" and "m \<le> 12"
  shows "days_in_month y m \<le> 31"
  using month_range [OF assms]
  by (elim disjE) (simp_all add: days_in_month_def nth_tables)

lemma strptime_strftime:
  assumes "valid_date dt"
  shows "strptime_Ymd (strftime_Ymd dt) =
           Inr \<lparr>year = year dt, month = month dt, day = day dt, hour = 0, minute = 0, second = 0\<rparr>"
proof -
  from assms have y: "1 \<le> year dt" "year dt \<le> 9999" and m: "1 \<le> month dt" "month dt \<le> 12"
    and d: "1 \<le> day dt" "day dt \<le> days_in_month (year dt) (month dt)"
    by (simp_all add: valid_date_def)
  from d(2) days_in_month_le [OF m, of "year dt"] have d31: "day dt \<le> 31" by linarith
  have "parse_d (zpad 2 (day dt) @ []) = Some (day dt, [])"
    by (rule parse_d_zpad [OF d(1) d31])
  then have pd: "parse_d (zpad 2 (day dt)) = Some (day dt, [])" by simp
  show ?thesis
    using y d(2)
    by (simp add: strptime_Ymd_def strftime_Ymd_def parse_Y_zpad [OF y] parse_m_zpad [OF m] pd)
qed

lemma list_request_eq:
  assumes "strptime_Ymd (args_get req ''date'' (strftime_Ymd clock)) = Inr start_date"
    and "(case args req ''days'' of Some s \<Rightarrow> py_int s | None \<Rightarrow> Inr 7) = Inr days"
    and "add_days start_date days = Inr end_date"
  shows "list_request req clock =
           Inr \<lparr>calendarId = ''primary'',
                timeMin = Some (isoformat start_date @ ''Z''),
                timeMax = Some (isoformat end_date @ ''Z''),
                maxResults = 50, singleEvents = True, orderBy = ''startTime'',
                q = (case args req ''query'' of
                       None \<Rightarrow> None
                     | Some s \<Rightarrow> if s = [] then None else Some s)\<rparr>"
  using assms
  by (simp add: list_request_def args_get_def split: option.splits)

lemma get_events_calls:
  assumes "get_calendar_service L w = (Inr service, w1)"
    and "list_request req (now w1) = Inr r"
  shows "calls (snd (get_events L req w)) = calls w1 @ [EventsList r]"
  using assms
  by (auto simp: get_events_def calls_log_call Let_def split: sum.splits)

text \<open>
  C6. For a date string that parses (the given \<open>date\<close>, or today's date written as
  \<open>%Y-%m-%d\<close> when none is given) and a \<open>days\<close> that is an integer (7 when none is given)
  with the sum inside the range of \<open>datetime\<close>, \<open>get_events\<close> sends one list request, on
  calendar \<open>primary\<close>: \<open>timeMin\<close> is the start date and \<open>timeMax\<close> the start date plus
  \<open>days\<close>, both at midnight, in ISO format with a \<open>Z\<close>; the day ordinal of the upper
  bound is the day ordinal of the lower bound plus \<open>days\<close> exactly; \<open>q\<close> is the query when
  it is not empty and is left out otherwise; \<open>singleEvents\<close> is true, \<open>orderBy\<close> is
  \<open>startTime\<close> and \<open>maxResults\<close> is 50. When no \<open>date\<close> is given, the start date is the
  clock's date.
\<close>

theorem list_events_window:
  assumes "route req = GET_events"
    and "headers req ''X-API-Key'' = Some (API_KEY w)"
    and "get_calendar_service L w = (Inr service, w1)"
    and "strptime_Ymd (args_get req ''date'' (strftime_Ymd (now w1))) = Inr start_date"
    and "(case args req ''days'' of Some s \<Rightarrow> py_int s | None \<Rightarrow> Inr 7) = Inr days"
    and "add_days start_date days = Inr end_date"
  shows "calls (snd (dispatch L req w)) =
           calls w1 @
           [EventsList
              \<lparr>calendarId = ''primary'',
                 timeMin = Some (isoformat start_date @ ''Z''),
                 timeMax = Some (isoformat end_date @ ''Z''),
                 maxResults = 50, singleEvents = True, orderBy = ''startTime'',
                 q = (case args req ''query'' of
                        None \<Rightarrow> None
                      | Some s \<Rightarrow> if s = [] then None else Some s)\<rparr>]
         \<and> toordinal end_date = toordinal start_date + days
         \<and> hour start_date = 0 \<and> minute start_date = 0 \<and> second start_date = 0
         \<and> hour end_date = 0 \<and> minute end_date = 0 \<and> second end_date = 0
         \<and> (args req ''date'' = None \<and> valid_date (now w1) \<longrightarrow>
               year start_date = year (now w1) \<and> month start_date = month (now w1)
               \<and> day start_date = day (now w1))"
proof -
  have "dispatch L req w = get_events L req w"
    using assms(1,2) by (simp add: dispatch_with_key)
  moreover have "year start_date = year (now w1) \<and> month start_date = month (now w1)
               \<and> day start_date = day (now w1)"
    if "args req ''date'' = None \<and> valid_date (now w1)"
    using that assms(4) strptime_strftime [of "now w1"] by (auto simp: args_get_def)
  ultimately show ?thesis
    using get_events_calls [OF assms(3) list_request_eq [OF assms(4,5,6)]]
          add_days_ordinal [OF assms(6)] strptime_Ymd_midnight [OF assms(4)]
    by simp
qed

theorem list_events_window_witness:
  "calls (snd (dispatch mem_lib
                 (mem_request GET_events
                    [(''date'', ''2024-12-28''), (''days'', ''7''), (''query'', ''standup'')] no_body)
                 mem_world)) =
     [Build fresh_creds,
      EventsList \<lparr>calendarId = ''primary'',
                   timeMin = Some ''2024-12-28T00:00:00Z'',
                   timeMax = Some ''2025-01-04T00:00:00Z'',
                   maxResults = 50, singleEvents = True, orderBy = ''startTime'',
                   q = Some ''standup''\<rparr>]
   \<and> calls (snd (dispatch mem_lib (mem_request GET_events [] no_body) mem_world)) =
     [Build fresh_creds,
      EventsList \<lparr>calendarId = ''primary'',
                   timeMin = Some ''2025-01-10T00:00:00Z'',
                   timeMax = Some ''2025-01-17T00:00:00Z'',
                   maxResults = 50, singleEvents = True, orderBy = ''startTime'',
                   q = None\<rparr>]"
proof -
  have g: "get_calendar_service mem_lib mem_world =
             (Inr mem_service, mem_world\<lparr>calls := [Build fresh_creds]\<rparr>)"
    by (simp add: get_calendar_service_def load_creds_def authorize_def mem_world_def
                  mem_lib_def fresh_creds_def log_call_def)
  have k: "headers (mem_request GET_events a b) ''X-API-Key'' = Some (API_KEY mem_world)" for a b
    by (simp add: mem_request_def mem_world_def)
  have r: "route (mem_request GET_events a b) = GET_events" for a b
    by (simp add: mem_request_def)
  have p1: "strptime_Ymd ''2024-12-28'' =
              Inr \<lparr>year = 2024, month = 12, day = 28, hour = 0, minute = 0, second = 0\<rparr>"
    by code_simp
  have a1: "add_days \<lparr>year = 2024, month = 12, day = 28, hour = 0, minute = 0, second = 0\<rparr> 7 =
              Inr \<lparr>year = 2025, month = 1, day = 4, hour = 0, minute = 0, second = 0\<rparr>"
    by code_simp
  have i1: "isoformat \<lparr>year = 2024, month = 12, day = 28, hour = 0, minute = 0, second = 0\<rparr>
              = ''2024-12-28T00:00:00''"
    by code_simp
  have i2: "isoformat \<lparr>year = 2025, month = 1, day = 4, hour = 0, minute = 0, second = 0\<rparr>
              = ''2025-01-04T00:00:00''"
    by code_simp
  have d1: "py_int ''7'' = Inr 7"
    by code_simp
  have t: "strftime_Ymd \<lparr>year = 2025, month = 1, day = 10, hour = 8, minute = 30, second = 0\<rparr>
             = ''2025-01-10''"
    by code_simp
  have p2: "strptime_Ymd ''2025-01-10'' =
              Inr \<lparr>year = 2025, month = 1, day = 10, hour = 0, minute = 0, second = 0\<rparr>"
    by code_simp
  have a2: "add_days \<lparr>year = 2025, month = 1, day = 10, hour = 0, minute = 0, second = 0\<rparr> 7 =
              Inr \<lparr>year = 2025, month = 1, day = 17, hour = 0, minute = 0, second = 0\<rparr>"
    by code_simp
  have i3: "isoformat \<lparr>year = 2025, month = 1, day = 10, hour = 0, minute = 0, second = 0\<rparr>
              = ''2025-01-10T00:00:00''"
    by code_simp
  have i4: "isoformat \<lparr>year = 2025, month = 1, day = 17, hour = 0, minute = 0, second = 0\<rparr>
              = ''2025-01-17T00:00:00''"
    by code_simp
  have first: "calls (snd (dispatch mem_lib
                 (mem_request GET_events
                    [(''date'', ''2024-12-28''), (''days'', ''7''), (''query'', ''standup'')] no_body)
                 mem_world)) =
     [Build fresh_creds,
      EventsList \<lparr>calendarId = ''primary'',
                   timeMin = Some ''2024-12-28T00:00:00Z'',
                   timeMax = Some ''2025-01-04T00:00:00Z'',
                   maxResults = 50, singleEvents = True, orderBy = ''startTime'',
                   q = Some ''standup''\<rparr>]"
    using list_events_window
            [OF r k g, of "[(''date'', ''2024-12-28''), (''days'', ''7''), (''query'', ''standup'')]"
               no_body "\<lparr>year = 2024, month = 12, day = 28, hour = 0, minute = 0, second = 0\<rparr>"
               7 "\<lparr>year = 2025, month = 1, day = 4, hour = 0, minute = 0, second = 0\<rparr>"]
          p1 a1 d1
    by (simp add: mem_request_def args_get_def i1 i2)
  have second: "calls (snd (dispatch mem_lib (mem_request GET_events [] no_body) mem_world)) =
     [Build fresh_creds,
      EventsList \<lparr>calendarId = ''primary'',
                   timeMin = Some ''2025-01-10T00:00:00Z'',
                   timeMax = Some ''2025-01-17T00:00:00Z'',
                   maxResults = 50, singleEvents = True, orderBy = ''startTime'',
                   q = None\<rparr>]"
    using list_events_window
            [OF r k g, of "[]"
               no_body "\<lparr>year = 2025, month = 1, day = 10, hour = 0, minute = 0, second = 0\<rparr>"
               7 "\<lparr>year = 2025, month = 1, day = 17, hour = 0, minute = 0, second = 0\<rparr>"]
          p2 a2 t
    by (simp add: mem_request_def mem_world_def args_get_def i3 i4)
  from first second show ?thesis by simp
qed

end
